theory Spec2Isabelle
  imports Complex_Main "HOL-Library.Word"
begin

section \<open>The underconstrained-goal filter of stomp\_moveit\<close>

text \<open>
  A shallow embedding of \<^verbatim>\<open>stomp_moveit/src/noisy_filters/underconstrained_goal.cpp\<close>.

  Conventions of the embedding.
  \<^item> A C++ \<^verbatim>\<open>double\<close> is a \<^typ>\<open>real\<close>: rounding, infinities and NaN are not
    modelled. A C++ \<^verbatim>\<open>int\<close> / \<^verbatim>\<open>unsigned int\<close> is a \<^typ>\<open>32 word\<close> (its bit
    pattern); where the source compares as unsigned the model uses the order of words.
  \<^item> The data members of the class (\<^verbatim>\<open>dof_nullity_\<close>, \<^verbatim>\<open>max_iterations_\<close>, ...)
    are the fields of the record \<open>UnderconstrainedGoal\<close>, written without the trailing
    underscore. A member function takes the record and returns the updated one.
  \<^item> The libraries the file is written against (xmlrpcpp, Eigen, MoveIt) are not
    part of the file. \<open>XmlRpcValue\<close> is modelled as a datatype with the accessors the
    file calls; the kinematic model, the conversion of a rotation matrix to angle and axis,
    and the singular value decomposition are parameters (record \<open>collaborators\<close>).
  \<^item> An \<^verbatim>\<open>XmlRpcException\<close> is an explicit branch (\<open>None\<close> of an accessor); a failed
    index or size check of Eigen (\<^verbatim>\<open>eigen_assert\<close>, which aborts the process, and is
    undefined behaviour when assertions are compiled out) is the outcome \<open>EigenAssert\<close>.
\<close>

subsection \<open>Constants\<close>

type_synonym int32 = "32 word"

definition DOF_SIZE :: nat where
  "DOF_SIZE = 6"

definition EPSILON :: real where
  "EPSILON = 0.1"

definition LAMBDA :: real where
  "LAMBDA = 0.01"

subsection \<open>XmlRpcValue\<close>

text \<open>
  The value type of xmlrpcpp, with one constructor per \<^verbatim>\<open>XmlRpcValue::Type\<close>. A struct is
  its list of members (the first entry of a name is the one found).
\<close>

datatype XmlRpcValue =
    TypeInvalid
  | TypeBoolean bool
  | TypeInt int32
  | TypeDouble real
  | TypeString string
  | TypeDateTime
  | TypeBase64
  | TypeArray "XmlRpcValue list"
  | TypeStruct "(string \<times> XmlRpcValue) list"

text \<open>
  \<^verbatim>\<open>params["key"]\<close> on a non-const value: \<^verbatim>\<open>assertStruct\<close> throws unless the value is
  a struct or invalid (an invalid value becomes an empty struct); a missing member is
  created invalid. \<open>None\<close> is the exception.
\<close>

fun struct_member :: "XmlRpcValue \<Rightarrow> string \<Rightarrow> XmlRpcValue option" where
  "struct_member (TypeStruct ms) k =
     Some (case map_of ms k of None \<Rightarrow> TypeInvalid | Some v \<Rightarrow> v)"
| "struct_member TypeInvalid k = Some TypeInvalid"
| "struct_member v k = None"

fun isTypeArray :: "XmlRpcValue \<Rightarrow> bool" where
  "isTypeArray (TypeArray vs) = True"
| "isTypeArray v = False"

text \<open>\<^verbatim>\<open>size()\<close> and the elements of a value that is known to be an array.\<close>

fun array_elems :: "XmlRpcValue \<Rightarrow> XmlRpcValue list" where
  "array_elems (TypeArray vs) = vs"
| "array_elems v = []"

text \<open>
  \<^verbatim>\<open>static_cast<int>(v)\<close> and \<^verbatim>\<open>static_cast<double>(v)\<close> go through
  \<^verbatim>\<open>operator int&()\<close> and \<^verbatim>\<open>operator double&()\<close>, that is \<^verbatim>\<open>assertTypeOrInvalid\<close>:
  an invalid value takes the requested type with a zero value, a value of another type
  throws.
\<close>

fun cast_int :: "XmlRpcValue \<Rightarrow> int32 option" where
  "cast_int (TypeInt n) = Some n"
| "cast_int TypeInvalid = Some 0"
| "cast_int v = None"

fun cast_double :: "XmlRpcValue \<Rightarrow> real option" where
  "cast_double (TypeDouble d) = Some d"
| "cast_double TypeInvalid = Some 0"
| "cast_double v = None"

subsection \<open>Fixed-size and dynamic Eigen types\<close>

type_synonym Vector3d = "real \<times> real \<times> real"

text \<open>A 3x3 matrix is its three columns.\<close>

type_synonym Matrix3d = "Vector3d \<times> Vector3d \<times> Vector3d"

type_synonym VectorXd = "real list"

type_synonym ArrayXi = "int32 list"

text \<open>
  \<^verbatim>\<open>Eigen::Affine3d\<close>, read only through \<^verbatim>\<open>translation()\<close> and \<^verbatim>\<open>rotation()\<close>: the
  two fields are what these accessors return.
\<close>

record Affine3d =
  translation :: Vector3d
  rotation :: Matrix3d

text \<open>
  \<^verbatim>\<open>Eigen::MatrixXd\<close>: the two run-time dimensions and the coefficients. Only the
  coefficients \<open>coeff m i j\<close> with \<open>i < rows m\<close> and \<open>j < cols m\<close> belong to the matrix.
\<close>

record MatrixXd =
  rows :: nat
  cols :: nat
  coeff :: "nat \<Rightarrow> nat \<Rightarrow> real"

subsection \<open>The filter object\<close>

record UnderconstrainedGoal =
  dof_nullity :: ArrayXi
  cartesian_convergence_thresholds :: VectorXd
  joint_update_rates :: VectorXd
  max_iterations :: int32
  tool_goal_pose :: Affine3d

datatype 'a outcome = Returns 'a | EigenAssert

subsection \<open>configure\<close>

text \<open>
  \<^verbatim>\<open>resize(n)\<close> of a dynamic Eigen array keeps the coefficients when the size does not
  change and otherwise allocates storage that is not initialised.
\<close>

definition resize :: "nat \<Rightarrow> 'a list \<Rightarrow> 'a list" where
  "resize n xs = (if length xs = n then xs else replicate n undefined)"

text \<open>
  The three copy loops \<^verbatim>\<open>for(i = 0u; i < param.size(); i++) arr(i) = static_cast<T>(param[i])\<close>.
  The conversion of the element is evaluated first and may throw, leaving what was written
  so far in the member (\<open>Threw\<close>); the write \<^verbatim>\<open>arr(i)\<close> is checked against the size the
  array was resized to.
\<close>

datatype 'a copied = Done 'a | Threw 'a | IndexAssert

fun copy_loop :: "(XmlRpcValue \<Rightarrow> 'a option) \<Rightarrow> XmlRpcValue list \<Rightarrow> nat \<Rightarrow> 'a list \<Rightarrow> 'a list copied" where
  "copy_loop cast [] i arr = Done arr"
| "copy_loop cast (v # vs) i arr =
     (case cast v of
        None \<Rightarrow> Threw arr
      | Some x \<Rightarrow> if i < length arr then copy_loop cast vs (Suc i) (arr[i := x]) else IndexAssert)"

text \<open>The guard of lines 139--144, on the three array parameters.\<close>

definition invalid_array_parameters :: "XmlRpcValue \<Rightarrow> XmlRpcValue \<Rightarrow> XmlRpcValue \<Rightarrow> bool" where
  "invalid_array_parameters dof_nullity_param dof_thresholds_param joint_updates_param =
     (\<not> isTypeArray dof_nullity_param \<or>
      length (array_elems dof_nullity_param) < DOF_SIZE \<or>
      \<not> isTypeArray dof_thresholds_param \<or>
      length (array_elems dof_thresholds_param) < DOF_SIZE \<or>
      \<not> isTypeArray joint_updates_param \<or>
      length (array_elems joint_updates_param) = 0)"

text \<open>
  The body of the \<^verbatim>\<open>try\<close> block after the guard (lines 150--169). Each store into a
  member happens before the next conversion, so a conversion that throws returns
  \<open>false\<close> (the \<^verbatim>\<open>catch\<close> block) with the members written so far.
\<close>

definition load_parameters ::
  "UnderconstrainedGoal \<Rightarrow> XmlRpcValue \<Rightarrow> XmlRpcValue \<Rightarrow> XmlRpcValue \<Rightarrow> XmlRpcValue \<Rightarrow>
   (bool \<times> UnderconstrainedGoal) outcome" where
  "load_parameters s params dof_nullity_param dof_thresholds_param joint_updates_param =
     (case copy_loop cast_int (array_elems dof_nullity_param) 0 (resize DOF_SIZE (dof_nullity s)) of
        IndexAssert \<Rightarrow> EigenAssert
      | Threw a \<Rightarrow> Returns (False, s\<lparr>dof_nullity := a\<rparr>)
      | Done a \<Rightarrow>
         (let s1 = s\<lparr>dof_nullity := a\<rparr> in
          case copy_loop cast_double (array_elems dof_thresholds_param) 0
                 (resize DOF_SIZE (cartesian_convergence_thresholds s1)) of
            IndexAssert \<Rightarrow> EigenAssert
          | Threw b \<Rightarrow> Returns (False, s1\<lparr>cartesian_convergence_thresholds := b\<rparr>)
          | Done b \<Rightarrow>
             (let s2 = s1\<lparr>cartesian_convergence_thresholds := b\<rparr> in
              case copy_loop cast_double (array_elems joint_updates_param) 0
                     (resize (length (array_elems joint_updates_param)) (joint_update_rates s2)) of
                IndexAssert \<Rightarrow> EigenAssert
              | Threw c \<Rightarrow> Returns (False, s2\<lparr>joint_update_rates := c\<rparr>)
              | Done c \<Rightarrow>
                 (let s3 = s2\<lparr>joint_update_rates := c\<rparr> in
                  case struct_member params ''max_ik_iterations'' of
                    None \<Rightarrow> Returns (False, s3)
                  | Some max_param \<Rightarrow>
                     (case cast_int max_param of
                        None \<Rightarrow> Returns (False, s3)
                      | Some m \<Rightarrow> Returns (True, s3\<lparr>max_iterations := m\<rparr>))))))"

definition configure :: "UnderconstrainedGoal \<Rightarrow> XmlRpcValue \<Rightarrow> (bool \<times> UnderconstrainedGoal) outcome" where
  "configure s config =
     (case struct_member config ''constrained_dofs'' of
        None \<Rightarrow> Returns (False, s)
      | Some dof_nullity_param \<Rightarrow>
     (case struct_member config ''cartesian_convergence'' of
        None \<Rightarrow> Returns (False, s)
      | Some dof_thresholds_param \<Rightarrow>
     (case struct_member config ''joint_update_rates'' of
        None \<Rightarrow> Returns (False, s)
      | Some joint_updates_param \<Rightarrow>
         if invalid_array_parameters dof_nullity_param dof_thresholds_param joint_updates_param
         then Returns (False, s)
         else load_parameters s config dof_nullity_param dof_thresholds_param joint_updates_param)))"

subsection \<open>Operations of Eigen used by the solver\<close>

definition v3_minus :: "Vector3d \<Rightarrow> Vector3d \<Rightarrow> Vector3d" where
  "v3_minus a b = (case a of (a1, a2, a3) \<Rightarrow> case b of (b1, b2, b3) \<Rightarrow> (a1 - b1, a2 - b2, a3 - b3))"

definition v3_plus :: "Vector3d \<Rightarrow> Vector3d \<Rightarrow> Vector3d" where
  "v3_plus a b = (case a of (a1, a2, a3) \<Rightarrow> case b of (b1, b2, b3) \<Rightarrow> (a1 + b1, a2 + b2, a3 + b3))"

definition v3_scale :: "Vector3d \<Rightarrow> real \<Rightarrow> Vector3d" where
  "v3_scale a k = (case a of (a1, a2, a3) \<Rightarrow> (a1 * k, a2 * k, a3 * k))"

definition v3_list :: "Vector3d \<Rightarrow> real list" where
  "v3_list a = (case a of (a1, a2, a3) \<Rightarrow> [a1, a2, a3])"

definition m3_transpose :: "Matrix3d \<Rightarrow> Matrix3d" where
  "m3_transpose m =
     (case m of ((a1, a2, a3), (b1, b2, b3), (c1, c2, c3)) \<Rightarrow>
        ((a1, b1, c1), (a2, b2, c2), (a3, b3, c3)))"

text \<open>Matrix times vector: the combination of the columns.\<close>

definition m3_apply :: "Matrix3d \<Rightarrow> Vector3d \<Rightarrow> Vector3d" where
  "m3_apply m v =
     (case m of (a, b, c) \<Rightarrow> case v of (x, y, z) \<Rightarrow>
        v3_plus (v3_plus (v3_scale a x) (v3_scale b y)) (v3_scale c z))"

definition m3_times :: "Matrix3d \<Rightarrow> Matrix3d \<Rightarrow> Matrix3d" where
  "m3_times m n = (case n of (a, b, c) \<Rightarrow> (m3_apply m a, m3_apply m b, m3_apply m c))"

definition m3_identity :: Matrix3d where
  "m3_identity = ((1, 0, 0), (0, 1, 0), (0, 0, 1))"

text \<open>
  Products and coefficient-wise operations of dynamic matrices and vectors check their
  operands' sizes.
\<close>

definition mat_times :: "MatrixXd \<Rightarrow> MatrixXd \<Rightarrow> MatrixXd outcome" where
  "mat_times a b =
     (if cols a \<noteq> rows b then EigenAssert
      else Returns \<lparr>rows = rows a, cols = cols b,
                     coeff = (\<lambda>i j. \<Sum>k<cols a. coeff a i k * coeff b k j)\<rparr>)"

definition mat_vec :: "MatrixXd \<Rightarrow> VectorXd \<Rightarrow> VectorXd outcome" where
  "mat_vec a v =
     (if cols a \<noteq> length v then EigenAssert
      else Returns (map (\<lambda>i. \<Sum>k<cols a. coeff a i k * v ! k) [0..<rows a]))"

definition asDiagonal :: "VectorXd \<Rightarrow> MatrixXd" where
  "asDiagonal v = \<lparr>rows = length v, cols = length v, coeff = (\<lambda>i j. if i = j then v ! i else 0)\<rparr>"

definition transpose_m :: "MatrixXd \<Rightarrow> MatrixXd" where
  "transpose_m a = \<lparr>rows = cols a, cols = rows a, coeff = (\<lambda>i j. coeff a j i)\<rparr>"

definition array_times :: "VectorXd \<Rightarrow> VectorXd \<Rightarrow> VectorXd outcome" where
  "array_times a b = (if length a \<noteq> length b then EigenAssert else Returns (map2 (*) a b))"

definition vec_plus :: "VectorXd \<Rightarrow> VectorXd \<Rightarrow> VectorXd outcome" where
  "vec_plus a b = (if length a \<noteq> length b then EigenAssert else Returns (map2 (+) a b))"

subsection \<open>reduceJacobian\<close>

text \<open>
  \<^verbatim>\<open>jacb_reduced.row(i) = jacb.row(indices[i])\<close> for every position of \<open>indices\<close>; a row
  index outside the matrix fails Eigen's check.
\<close>

definition reduceJacobian :: "MatrixXd \<Rightarrow> nat list \<Rightarrow> MatrixXd outcome" where
  "reduceJacobian jacb indices =
     (if \<exists>r \<in> set indices. rows jacb \<le> r then EigenAssert
      else Returns \<lparr>rows = length indices, cols = cols jacb,
                     coeff = (\<lambda>i j. coeff jacb (indices ! i) j)\<rparr>)"

subsection \<open>calculateDampedPseudoInverse\<close>

text \<open>
  The loop over the singular values (lines 57--67); \<open>inv_Sv\<close> starts as a vector of
  \<open>nSv\<close> coefficients that are not initialised.
\<close>

function inv_Sv_loop :: "VectorXd \<Rightarrow> real \<Rightarrow> real \<Rightarrow> nat \<Rightarrow> VectorXd \<Rightarrow> VectorXd" where
  "inv_Sv_loop Sv eps lambda i inv_Sv =
     (if i < length Sv then
        inv_Sv_loop Sv eps lambda (Suc i)
          (inv_Sv[i := (if \<bar>Sv ! i\<bar> > eps then 1 / (Sv ! i)
                        else Sv ! i / (Sv ! i * Sv ! i + lambda * lambda))])
      else inv_Sv)"
  by pat_completeness auto
termination
  by (relation "measure (\<lambda>(Sv, eps, lambda, i, inv_Sv). length Sv - i)") auto

text \<open>
  The decomposition itself is Eigen's \<^verbatim>\<open>JacobiSVD\<close> with thin \<open>U\<close> and \<open>V\<close>: the
  parameter \<open>svd\<close> returns \<open>(U, Sv, V)\<close>.
\<close>

definition calculateDampedPseudoInverse ::
  "(MatrixXd \<Rightarrow> MatrixXd \<times> VectorXd \<times> MatrixXd) \<Rightarrow> MatrixXd \<Rightarrow> real \<Rightarrow> real \<Rightarrow> MatrixXd outcome" where
  "calculateDampedPseudoInverse svd jacb eps lambda =
     (case svd jacb of (U, Sv, V) \<Rightarrow>
        (let nSv = length Sv;
             inv_Sv = inv_Sv_loop Sv eps lambda 0 (replicate nSv undefined)
         in case mat_times V (asDiagonal inv_Sv) of
              EigenAssert \<Rightarrow> EigenAssert
            | Returns vs \<Rightarrow> mat_times vs (transpose_m U)))"

subsection \<open>computeTwist\<close>

text \<open>The loop forcing the angle to the range from \<open>-pi\<close> to \<open>pi\<close> (lines 86--90).\<close>

function force_angle_range :: "real \<Rightarrow> real" where
  "force_angle_range angle =
     (if angle > pi \<or> angle < - pi then
        force_angle_range
          (let angle1 = (if angle > pi then angle - 2 * pi else angle)
           in (if angle1 < - pi then angle1 + 2 * pi else angle1))
      else angle)"
  by pat_completeness auto
termination
proof (relation "measure (\<lambda>a. nat \<lfloor>\<bar>a\<bar> / pi\<rfloor>)", goal_cases)
  case 1
  show ?case by simp
next
  case (2 angle)
  have down: "nat \<lfloor>\<bar>a - 2 * pi\<bar> / pi\<rfloor> < nat \<lfloor>\<bar>a\<bar> / pi\<rfloor>" if "pi < a" for a :: real
  proof -
    have "0 < a" using that pi_gt_zero by linarith
    then have abs_a: "\<bar>a\<bar> = a" by simp
    show ?thesis
    proof (cases "2 * pi \<le> a")
      case True
      then have "\<bar>a - 2 * pi\<bar> = a - 2 * pi" by simp
      then have "\<bar>a - 2 * pi\<bar> / pi = a / pi - 2"
        using pi_gt_zero by (simp add: field_simps)
      then have "\<lfloor>\<bar>a - 2 * pi\<bar> / pi\<rfloor> = \<lfloor>a / pi\<rfloor> - 2"
        by simp
      moreover have "2 \<le> \<lfloor>a / pi\<rfloor>"
        using True pi_gt_zero by (simp add: le_floor_iff field_simps)
      ultimately show ?thesis unfolding abs_a by linarith
    next
      case False
      then have "\<bar>a - 2 * pi\<bar> = 2 * pi - a" by simp
      then have "\<bar>a - 2 * pi\<bar> / pi < 1"
        using that pi_gt_zero by (simp add: field_simps)
      then have "\<lfloor>\<bar>a - 2 * pi\<bar> / pi\<rfloor> < 1"
        by (simp add: floor_less_iff)
      moreover have "1 \<le> \<lfloor>a / pi\<rfloor>"
        using that pi_gt_zero by (simp add: le_floor_iff field_simps)
      ultimately show ?thesis unfolding abs_a by linarith
    qed
  qed
  have up: "nat \<lfloor>\<bar>a + 2 * pi\<bar> / pi\<rfloor> < nat \<lfloor>\<bar>a\<bar> / pi\<rfloor>" if "a < - pi" for a :: real
  proof -
    have "pi < - a" using that by simp
    then have "nat \<lfloor>\<bar>- a - 2 * pi\<bar> / pi\<rfloor> < nat \<lfloor>\<bar>- a\<bar> / pi\<rfloor>"
      by (rule down)
    moreover have "\<bar>- a - 2 * pi\<bar> = \<bar>a + 2 * pi\<bar>"
      by (metis abs_minus_cancel add.inverse_distrib_swap uminus_add_conv_diff)
    ultimately show ?thesis by simp
  qed
  show ?case
  proof (cases "angle > pi")
    case True
    then have "\<not> angle - 2 * pi < - pi" by simp
    with True down [of angle] show ?thesis
      by (simp only: Let_def if_True if_False in_measure)
  next
    case False
    with 2 have "angle < - pi" by simp
    with False up [of angle] show ?thesis
      by (simp only: Let_def if_True if_False in_measure)
  qed
qed

text \<open>
  \<^verbatim>\<open>twist.head(3) = twist_pos\<close> and \<^verbatim>\<open>twist.tail(3) = twist_rot\<close>; both blocks need a
  vector of at least three coefficients.
\<close>

definition set_head3 :: "VectorXd \<Rightarrow> Vector3d \<Rightarrow> VectorXd" where
  "set_head3 twist v = v3_list v @ drop 3 twist"

definition set_tail3 :: "VectorXd \<Rightarrow> Vector3d \<Rightarrow> VectorXd" where
  "set_tail3 twist v = take (length twist - 3) twist @ v3_list v"

text \<open>
  The parameter \<open>angleAxis\<close> is the constructor \<^verbatim>\<open>Eigen::AngleAxisd(matrix)\<close>, giving
  \<^verbatim>\<open>angle()\<close> and \<^verbatim>\<open>axis()\<close> of a rotation matrix.
\<close>

definition computeTwist ::
  "(Matrix3d \<Rightarrow> real \<times> Vector3d) \<Rightarrow> Affine3d \<Rightarrow> Affine3d \<Rightarrow> ArrayXi \<Rightarrow> VectorXd outcome" where
  "computeTwist angleAxis p0 pf nullity =
     (let twist = replicate (length nullity) 0;
          twist_pos = v3_minus (translation pf) (translation p0);
          relative_rot = angleAxis (m3_times (m3_transpose (rotation p0)) (rotation pf));
          angle = force_angle_range (fst relative_rot);
          axis = snd relative_rot;
          twist_rot = v3_scale axis angle
      in if length nullity < 3 then EigenAssert
         else Returns (map2 (\<lambda>n t. if n = 0 then 0 else t) nullity
                         (set_tail3 (set_head3 twist twist_pos) twist_rot)))"

subsection \<open>runIK\<close>

text \<open>
  What the solver asks of MoveIt and Eigen. \<open>forward_kinematics q\<close> is
  \<^verbatim>\<open>setJointGroupPositions\<close> with \<open>q\<close> followed by \<^verbatim>\<open>getGlobalLinkTransform(tool_link_)\<close>;
  \<open>getJacobian q\<close> is \<^verbatim>\<open>getJacobian\<close> of the state holding \<open>q\<close>, \<open>None\<close> when it
  returns \<open>false\<close>.
\<close>

record collaborators =
  forward_kinematics :: "VectorXd \<Rightarrow> Affine3d"
  getJacobian :: "VectorXd \<Rightarrow> MatrixXd option"
  toAngleAxis :: "Matrix3d \<Rightarrow> real \<times> Vector3d"
  jacobiSVD :: "MatrixXd \<Rightarrow> MatrixXd \<times> VectorXd \<times> MatrixXd"

text \<open>The positions of the nonzero entries of \<open>dof_nullity\<close> (lines 286--293).\<close>

definition constrained_indices :: "ArrayXi \<Rightarrow> nat list" where
  "constrained_indices nullity = filter (\<lambda>i. nullity ! i \<noteq> 0) [0..<length nullity]"

text \<open>
  The convergence test of line 309: the coefficient-wise comparison needs operands of
  one size.
\<close>

definition twist_below_thresholds :: "VectorXd \<Rightarrow> VectorXd \<Rightarrow> bool outcome" where
  "twist_below_thresholds tool_twist thresholds =
     (if length tool_twist \<noteq> length thresholds then EigenAssert
      else Returns (list_all (\<lambda>(t, h). \<bar>t\<bar> < h) (zip tool_twist thresholds)))"

text \<open>
  Line 331: the last three rows of the Jacobian are replaced by the transposed tool
  rotation times these rows.
\<close>

definition rotate_bottomRows :: "Matrix3d \<Rightarrow> MatrixXd \<Rightarrow> MatrixXd outcome" where
  "rotate_bottomRows r jacb =
     (if rows jacb < 3 then EigenAssert
      else Returns (jacb\<lparr>coeff := (\<lambda>i j.
             if rows jacb - 3 \<le> i \<and> i < rows jacb
             then v3_list (m3_apply r (coeff jacb (rows jacb - 3) j,
                                        coeff jacb (rows jacb - 2) j,
                                        coeff jacb (rows jacb - 1) j)) ! (i - (rows jacb - 3))
             else coeff jacb i j)\<rparr>))"

text \<open>
  Lines 318--341 after the Jacobian has been obtained: the reduced twist, the reduced
  Jacobian, its damped pseudo-inverse, the joint change and the updated joint values.
\<close>

definition update_joint_pose ::
  "collaborators \<Rightarrow> UnderconstrainedGoal \<Rightarrow> nat list \<Rightarrow> VectorXd \<Rightarrow> MatrixXd \<Rightarrow> Affine3d \<Rightarrow> VectorXd \<Rightarrow>
   VectorXd outcome" where
  "update_joint_pose c s indices tool_twist jacb tool_current_pose joint_pose =
     (let tool_twist_reduced = map (\<lambda>i. tool_twist ! i) indices in
      case rotate_bottomRows (m3_transpose (rotation tool_current_pose)) jacb of
        EigenAssert \<Rightarrow> EigenAssert
      | Returns jacb1 \<Rightarrow>
     (case reduceJacobian jacb1 indices of
        EigenAssert \<Rightarrow> EigenAssert
      | Returns jacb_reduced \<Rightarrow>
     (case calculateDampedPseudoInverse (jacobiSVD c) jacb_reduced EPSILON LAMBDA of
        EigenAssert \<Rightarrow> EigenAssert
      | Returns jacb_pseudo_inv \<Rightarrow>
     (case mat_vec jacb_pseudo_inv tool_twist_reduced of
        EigenAssert \<Rightarrow> EigenAssert
      | Returns delta_j \<Rightarrow>
     (case array_times (joint_update_rates s) delta_j of
        EigenAssert \<Rightarrow> EigenAssert
      | Returns change \<Rightarrow> vec_plus joint_pose change)))))"

text \<open>
  The \<^verbatim>\<open>while\<close> loop of lines 302--348. \<open>iteration_count\<close> is an \<^verbatim>\<open>unsigned int\<close>
  that stays below the unsigned value of \<open>max_iterations\<close>, so it never wraps and is a
  natural number here. The result is the returned flag, the output argument
  \<open>joint_pose\<close> and the final \<open>iteration_count\<close>, which is the number of joint updates
  made.
\<close>

function runIK_loop ::
  "collaborators \<Rightarrow> UnderconstrainedGoal \<Rightarrow> Affine3d \<Rightarrow> nat list \<Rightarrow> nat \<Rightarrow> VectorXd \<Rightarrow> Affine3d \<Rightarrow>
   (bool \<times> VectorXd \<times> nat) outcome" where
  "runIK_loop c s tool_goal indices iteration_count joint_pose tool_current_pose =
     (if iteration_count < unat (max_iterations s) then
        (case computeTwist (toAngleAxis c) tool_current_pose tool_goal (dof_nullity s) of
           EigenAssert \<Rightarrow> EigenAssert
         | Returns tool_twist \<Rightarrow>
        (case twist_below_thresholds tool_twist (cartesian_convergence_thresholds s) of
           EigenAssert \<Rightarrow> EigenAssert
         | Returns all_below \<Rightarrow>
            if all_below then Returns (True, joint_pose, iteration_count)
            else
              (case getJacobian c joint_pose of
                 None \<Rightarrow> Returns (False, joint_pose, iteration_count)
               | Some jacb \<Rightarrow>
              (case update_joint_pose c s indices tool_twist jacb tool_current_pose joint_pose of
                 EigenAssert \<Rightarrow> EigenAssert
               | Returns joint_pose' \<Rightarrow>
                   runIK_loop c s tool_goal indices (Suc iteration_count) joint_pose'
                     (forward_kinematics c joint_pose')))))
      else Returns (False, joint_pose, iteration_count))"
  by pat_completeness auto
termination
  by (relation "measure (\<lambda>(c, s, tool_goal, indices, iteration_count, joint_pose, tool_current_pose).
         unat (max_iterations s) - iteration_count)") auto

definition runIK ::
  "collaborators \<Rightarrow> UnderconstrainedGoal \<Rightarrow> Affine3d \<Rightarrow> VectorXd \<Rightarrow> (bool \<times> VectorXd \<times> nat) outcome" where
  "runIK c s tool_goal init_joint_pose =
     runIK_loop c s tool_goal (constrained_indices (dof_nullity s)) 0 init_joint_pose
       (forward_kinematics c init_joint_pose)"

subsection \<open>filter\<close>

text \<open>\<^verbatim>\<open>parameters.rightCols(1)\<close>, read into a vector and assigned from a vector.\<close>

definition rightCols1 :: "MatrixXd \<Rightarrow> VectorXd outcome" where
  "rightCols1 parameters =
     (if cols parameters < 1 then EigenAssert
      else Returns (map (\<lambda>i. coeff parameters i (cols parameters - 1)) [0..<rows parameters]))"

definition set_rightCols1 :: "MatrixXd \<Rightarrow> VectorXd \<Rightarrow> MatrixXd outcome" where
  "set_rightCols1 parameters v =
     (if cols parameters < 1 \<or> length v \<noteq> rows parameters then EigenAssert
      else Returns (parameters\<lparr>coeff := (\<lambda>i j.
             if i < rows parameters \<and> j = cols parameters - 1 then v ! i
             else coeff parameters i j)\<rparr>))"

text \<open>
  The result is the returned flag, the output argument \<open>filtered\<close> and the matrix
  \<open>parameters\<close> after the call. The arguments \<open>start_timestep\<close>, \<open>num_timesteps\<close>,
  \<open>iteration_number\<close> and \<open>rollout_number\<close> are not used by the body.
\<close>

definition filter_parameters ::
  "collaborators \<Rightarrow> UnderconstrainedGoal \<Rightarrow> MatrixXd \<Rightarrow> (bool \<times> bool \<times> MatrixXd) outcome" where
  "filter_parameters c s parameters =
     (case rightCols1 parameters of
        EigenAssert \<Rightarrow> EigenAssert
      | Returns init_joint_pose \<Rightarrow>
     (case runIK c s (tool_goal_pose s) init_joint_pose of
        EigenAssert \<Rightarrow> EigenAssert
      | Returns (converged, joint_pose, n) \<Rightarrow>
          if \<not> converged then Returns (False, False, parameters)
          else
            (case set_rightCols1 parameters joint_pose of
               EigenAssert \<Rightarrow> EigenAssert
             | Returns parameters' \<Rightarrow> Returns (True, True, parameters'))))"

subsection \<open>One pass of the loop and the joint vector after several updates\<close>

text \<open>
  The body of the \<^verbatim>\<open>while\<close> loop (lines 305--345) as a function of the joint vector
  alone: in \<open>runIK\<close> the current tool pose is always the forward kinematics of the current
  joint vector, and the indices are those of the mask. A pass ends the loop with
  convergence (line 314) or with the Jacobian unavailable (line 327), fails a check of
  Eigen, or makes one joint update.
\<close>

datatype pass = Converged | JacobianUnavailable | Updated VectorXd | CheckFailed

definition loop_pass :: "collaborators \<Rightarrow> UnderconstrainedGoal \<Rightarrow> Affine3d \<Rightarrow> VectorXd \<Rightarrow> pass" where
  "loop_pass c s tool_goal joint_pose =
     (case computeTwist (toAngleAxis c) (forward_kinematics c joint_pose) tool_goal (dof_nullity s) of
        EigenAssert \<Rightarrow> CheckFailed
      | Returns tool_twist \<Rightarrow>
     (case twist_below_thresholds tool_twist (cartesian_convergence_thresholds s) of
        EigenAssert \<Rightarrow> CheckFailed
      | Returns all_below \<Rightarrow>
         if all_below then Converged
         else
           (case getJacobian c joint_pose of
              None \<Rightarrow> JacobianUnavailable
            | Some jacb \<Rightarrow>
           (case update_joint_pose c s (constrained_indices (dof_nullity s)) tool_twist jacb
                   (forward_kinematics c joint_pose) joint_pose of
              EigenAssert \<Rightarrow> CheckFailed
            | Returns joint_pose' \<Rightarrow> Updated joint_pose'))))"

text \<open>
  The joint vector after \<open>k\<close> passes that each made a joint update; \<open>None\<close> when one of
  these passes did not update.
\<close>

fun joint_pose_after ::
  "collaborators \<Rightarrow> UnderconstrainedGoal \<Rightarrow> Affine3d \<Rightarrow> VectorXd \<Rightarrow> nat \<Rightarrow> VectorXd option" where
  "joint_pose_after c s tool_goal joint_pose 0 = Some joint_pose"
| "joint_pose_after c s tool_goal joint_pose (Suc k) =
     (case loop_pass c s tool_goal joint_pose of
        Updated joint_pose' \<Rightarrow> joint_pose_after c s tool_goal joint_pose' k
      | _ \<Rightarrow> None)"

subsection \<open>Rejection before anything is stored\<close>

text \<open>
  The inputs on which \<open>configure\<close> returns before its first \<^verbatim>\<open>resize\<close>: a lookup
  throws, or the guard on the three arrays rejects.
\<close>

definition array_parameters_rejected :: "XmlRpcValue \<Rightarrow> bool" where
  "array_parameters_rejected config =
     (case struct_member config ''constrained_dofs'' of
        None \<Rightarrow> True
      | Some dof_nullity_param \<Rightarrow>
     (case struct_member config ''cartesian_convergence'' of
        None \<Rightarrow> True
      | Some dof_thresholds_param \<Rightarrow>
     (case struct_member config ''joint_update_rates'' of
        None \<Rightarrow> True
      | Some joint_updates_param \<Rightarrow>
          invalid_array_parameters dof_nullity_param dof_thresholds_param joint_updates_param)))"

subsection \<open>Specification-side notions\<close>

text \<open>
  The inverse contribution of one singular value in the words of the specification
  (section 4.3): \<open>1 / sigma\<close> if \<open>|sigma| > epsilon\<close>, otherwise the damped form
  \<open>sigma / (sigma\<^sup>2 + lambda\<^sup>2)\<close>.
\<close>

definition spec_inverse_contribution :: "real \<Rightarrow> real \<Rightarrow> real \<Rightarrow> real" where
  "spec_inverse_contribution eps lambda sigma =
     (if \<bar>sigma\<bar> > eps then 1 / sigma else sigma / (sigma\<^sup>2 + lambda\<^sup>2))"

text \<open>
  The sizes that \<open>configure\<close>, MoveIt and Eigen provide for a chain of \<open>N\<close> joints: mask
  and thresholds of six entries, \<open>N\<close> update rates, a Jacobian of 6 rows and \<open>N\<close>
  columns, and a thin decomposition whose factors fit the decomposed matrix.
\<close>

definition well_dimensioned :: "collaborators \<Rightarrow> UnderconstrainedGoal \<Rightarrow> nat \<Rightarrow> bool" where
  "well_dimensioned c s N \<longleftrightarrow>
     length (dof_nullity s) = DOF_SIZE \<and>
     length (cartesian_convergence_thresholds s) = DOF_SIZE \<and>
     length (joint_update_rates s) = N \<and>
     (\<forall>q jacb. getJacobian c q = Some jacb \<longrightarrow> rows jacb = DOF_SIZE \<and> cols jacb = N) \<and>
     (\<forall>m. case jacobiSVD c m of (U, Sv, V) \<Rightarrow>
            rows U = rows m \<and> cols U = length Sv \<and> rows V = cols m \<and> cols V = length Sv)"

subsection \<open>Example instances\<close>

text \<open>A configured filter for a chain of one joint, all six axes constrained.\<close>

definition example_goal :: UnderconstrainedGoal where
  "example_goal =
     \<lparr>dof_nullity = [1, 1, 1, 1, 1, 1],
      cartesian_convergence_thresholds = [1/100, 1/100, 1/100, 1/100, 1/100, 1/100],
      joint_update_rates = [1],
      max_iterations = 100,
      tool_goal_pose = \<lparr>translation = (0, 0, 0), rotation = m3_identity\<rparr>\<rparr>"

text \<open>A configuration whose arrays are well formed and whose iteration budget is a string.\<close>

definition string_budget_config :: XmlRpcValue where
  "string_budget_config = TypeStruct
     [(''constrained_dofs'',
         TypeArray [TypeInt 1, TypeInt 1, TypeInt 1, TypeInt 0, TypeInt 0, TypeInt 0]),
      (''cartesian_convergence'',
         TypeArray [TypeDouble 1, TypeDouble 1, TypeDouble 1, TypeDouble 1, TypeDouble 1, TypeDouble 1]),
      (''joint_update_rates'', TypeArray [TypeDouble 2]),
      (''max_ik_iterations'', TypeString ''100'')]"

text \<open>A configuration with seven integer entries in \<open>constrained_dofs\<close>.\<close>

definition seven_dofs_config :: XmlRpcValue where
  "seven_dofs_config = TypeStruct
     [(''constrained_dofs'',
         TypeArray [TypeInt 1, TypeInt 1, TypeInt 1, TypeInt 0, TypeInt 0, TypeInt 0, TypeInt 0]),
      (''cartesian_convergence'',
         TypeArray [TypeDouble 1, TypeDouble 1, TypeDouble 1, TypeDouble 1, TypeDouble 1, TypeDouble 1]),
      (''joint_update_rates'', TypeArray [TypeDouble 2]),
      (''max_ik_iterations'', TypeInt 100)]"

text \<open>A configuration with two entries in \<open>constrained_dofs\<close> and nothing else.\<close>

definition short_dofs_config :: XmlRpcValue where
  "short_dofs_config = TypeStruct [(''constrained_dofs'', TypeArray [TypeInt 1, TypeInt 1])]"

text \<open>
  A chain of one prismatic joint along the x axis: the tool sits at \<open>(q, 0, 0)\<close> and
  never rotates, so the only relative rotation is the identity, for which Eigen gives the
  angle 0 and the axis \<open>(1, 0, 0)\<close>. The Jacobian is the unit column; the thin
  decomposition of a matrix with orthonormal columns is the matrix itself, singular
  values 1 and the identity.
\<close>

definition example_jacobian :: MatrixXd where
  "example_jacobian = \<lparr>rows = 6, cols = 1, coeff = (\<lambda>i j. if i = 0 then 1 else 0)\<rparr>"

definition example_arm :: collaborators where
  "example_arm =
     \<lparr>forward_kinematics =
        (\<lambda>q. \<lparr>translation = (case q of [] \<Rightarrow> 0 | x # xs \<Rightarrow> x, 0, 0), rotation = m3_identity\<rparr>),
      getJacobian = (\<lambda>q. Some example_jacobian),
      toAngleAxis = (\<lambda>m. (0, (1, 0, 0))),
      jacobiSVD =
        (\<lambda>m. (\<lparr>rows = rows m, cols = min (rows m) (cols m), coeff = coeff m\<rparr>,
              replicate (min (rows m) (cols m)) 1,
              \<lparr>rows = cols m, cols = min (rows m) (cols m),
               coeff = (\<lambda>i j. if i = j then 1 else 0)\<rparr>))\<rparr>"

text \<open>The same chain when MoveIt cannot give a Jacobian.\<close>

definition no_jacobian_arm :: collaborators where
  "no_jacobian_arm = example_arm\<lparr>getJacobian := (\<lambda>q. None)\<rparr>"

text \<open>A rollout of two waypoints for the one joint: the positions 5 and 1.\<close>

definition example_parameters :: MatrixXd where
  "example_parameters = \<lparr>rows = 1, cols = 2, coeff = (\<lambda>i j. if j = 0 then 5 else 1)\<rparr>"

text \<open>The example filter with all thresholds 0 and a budget of one iteration.\<close>

definition zero_threshold_goal :: UnderconstrainedGoal where
  "zero_threshold_goal =
     example_goal\<lparr>cartesian_convergence_thresholds := [0, 0, 0, 0, 0, 0], max_iterations := 1\<rparr>"

text \<open>A rollout whose last waypoint is the joint position 0, where the tool is at the goal.\<close>

definition goal_parameters :: MatrixXd where
  "goal_parameters = \<lparr>rows = 1, cols = 2, coeff = (\<lambda>i j. if j = 0 then 5 else 0)\<rparr>"



text \<open>
  The example filter with an update rate of 1/2 and a budget of two iterations; with the
  budget \<open>-1\<close>; and with two update rates for the chain of one joint.
\<close>

definition half_rate_goal :: UnderconstrainedGoal where
  "half_rate_goal = example_goal\<lparr>joint_update_rates := [1/2], max_iterations := 2\<rparr>"

definition negative_budget_goal :: UnderconstrainedGoal where
  "negative_budget_goal = example_goal\<lparr>max_iterations := - 1\<rparr>"

definition two_rates_goal :: UnderconstrainedGoal where
  "two_rates_goal = example_goal\<lparr>joint_update_rates := [1, 1]\<rparr>"

section \<open>Properties of configure\<close>

lemma load_parameters_max:
  "load_parameters s params a b c = Returns (False, s') \<Longrightarrow> max_iterations s' = max_iterations s"
  unfolding load_parameters_def Let_def
  by (simp split: copied.splits option.splits) auto

lemma copy_six_doubles:
  "copy_loop cast_double
     [TypeDouble 1, TypeDouble 1, TypeDouble 1, TypeDouble 1, TypeDouble 1, TypeDouble 1] 0
     [1/100, 1/100, 1/100, 1/100, 1/100, 1/100] = Done [1, 1, 1, 1, 1, 1]"
  by simp

lemma configure_string_budget:
  "configure example_goal string_budget_config
   = Returns (False, example_goal\<lparr>dof_nullity := [1, 1, 1, 0, 0, 0],
                                   cartesian_convergence_thresholds := [1, 1, 1, 1, 1, 1],
                                   joint_update_rates := [2]\<rparr>)"
proof -
  have m1: "struct_member string_budget_config ''constrained_dofs''
      = Some (TypeArray [TypeInt 1, TypeInt 1, TypeInt 1, TypeInt 0, TypeInt 0, TypeInt 0])"
    by (simp add: string_budget_config_def)
  have m2: "struct_member string_budget_config ''cartesian_convergence''
      = Some (TypeArray [TypeDouble 1, TypeDouble 1, TypeDouble 1, TypeDouble 1, TypeDouble 1, TypeDouble 1])"
    by (simp add: string_budget_config_def)
  have m3: "struct_member string_budget_config ''joint_update_rates'' = Some (TypeArray [TypeDouble 2])"
    by (simp add: string_budget_config_def)
  have m4: "struct_member string_budget_config ''max_ik_iterations'' = Some (TypeString ''100'')"
    by (simp add: string_budget_config_def)
  have g: "\<not> invalid_array_parameters
       (TypeArray [TypeInt 1, TypeInt 1, TypeInt 1, TypeInt 0, TypeInt 0, TypeInt 0])
       (TypeArray [TypeDouble 1, TypeDouble 1, TypeDouble 1, TypeDouble 1, TypeDouble 1, TypeDouble 1])
       (TypeArray [TypeDouble 2])"
    by (simp add: invalid_array_parameters_def DOF_SIZE_def)
  have r1: "resize DOF_SIZE (dof_nullity example_goal) = [1, 1, 1, 1, 1, 1]"
    by (simp add: resize_def DOF_SIZE_def example_goal_def)
  have r2: "resize DOF_SIZE
       (cartesian_convergence_thresholds (example_goal\<lparr>dof_nullity := [1, 1, 1, 0, 0, 0]\<rparr>))
      = [1/100, 1/100, 1/100, 1/100, 1/100, 1/100]"
    by (simp add: resize_def DOF_SIZE_def example_goal_def)
  have r3: "resize (length [TypeDouble 2])
       (joint_update_rates (example_goal\<lparr>dof_nullity := [1, 1, 1, 0, 0, 0],
          cartesian_convergence_thresholds := [1, 1, 1, 1, 1, 1]\<rparr>)) = [1]"
    by (simp add: resize_def example_goal_def)
  have c1: "copy_loop cast_int
       [TypeInt 1, TypeInt 1, TypeInt 1, TypeInt 0, TypeInt 0, TypeInt 0] 0 [1, 1, 1, 1, 1, 1]
      = Done [1, 1, 1, 0, 0, 0]"
    by simp
  have c3: "copy_loop cast_double [TypeDouble 2] 0 [1] = Done [2]"
    by simp
  show ?thesis
    unfolding configure_def load_parameters_def Let_def
    by (simp only: m1 m2 m3 m4 g r1 r2 r3 c1 copy_six_doubles c3 option.case if_False
          array_elems.simps copied.case cast_int.simps)
qed

text \<open>
  C2, as amended. When \<open>configure\<close> rejects its input before the copy loops (the
  configuration is not a struct, one of the three parameters is not an array,
  \<open>constrained_dofs\<close> or \<open>cartesian_convergence\<close> has fewer than six entries, or
  \<open>joint_update_rates\<close> is empty), it returns \<open>false\<close> and the whole object is
  unchanged. On every \<open>false\<close> return the iteration budget is unchanged.
\<close>

theorem configure_rejection_keeps_members:
  "(array_parameters_rejected config \<longrightarrow> configure s config = Returns (False, s)) \<and>
   (configure s config = Returns (False, s') \<longrightarrow> max_iterations s' = max_iterations s)"
proof (intro conjI impI)
  assume "array_parameters_rejected config"
  then show "configure s config = Returns (False, s)"
    by (simp add: configure_def array_parameters_rejected_def split: option.splits)
next
  assume "configure s config = Returns (False, s')"
  then show "max_iterations s' = max_iterations s"
    unfolding configure_def
    by (simp split: option.splits if_splits add: load_parameters_max)
qed

theorem configure_rejection_keeps_members_witness:
  "array_parameters_rejected short_dofs_config \<and>
   configure example_goal short_dofs_config = Returns (False, example_goal) \<and>
   configure example_goal string_budget_config
     = Returns (False, example_goal\<lparr>dof_nullity := [1, 1, 1, 0, 0, 0],
                                     cartesian_convergence_thresholds := [1, 1, 1, 1, 1, 1],
                                     joint_update_rates := [2]\<rparr>) \<and>
   max_iterations (example_goal\<lparr>dof_nullity := [1, 1, 1, 0, 0, 0],
                                 cartesian_convergence_thresholds := [1, 1, 1, 1, 1, 1],
                                 joint_update_rates := [2]\<rparr>) = max_iterations example_goal"
proof -
  have r: "array_parameters_rejected short_dofs_config"
    by (simp add: array_parameters_rejected_def short_dofs_config_def
          invalid_array_parameters_def DOF_SIZE_def)
  note t = configure_rejection_keeps_members [of short_dofs_config example_goal]
  note u = configure_rejection_keeps_members [of string_budget_config example_goal]
  from r t have "configure example_goal short_dofs_config = Returns (False, example_goal)"
    by blast
  moreover from u configure_string_budget
  have "max_iterations (example_goal\<lparr>dof_nullity := [1, 1, 1, 0, 0, 0],
                                 cartesian_convergence_thresholds := [1, 1, 1, 1, 1, 1],
                                 joint_update_rates := [2]\<rparr>) = max_iterations example_goal"
    by blast
  ultimately show ?thesis using r configure_string_budget by blast
qed

text \<open>
  C2, as stated, fails: a well-formed configuration whose \<open>max_ik_iterations\<close> is a
  string makes \<open>configure\<close> return \<open>false\<close> after the three arrays have been stored.
\<close>

theorem configure_partial_counterexample:
  "configure example_goal string_budget_config
     = Returns (False, example_goal\<lparr>dof_nullity := [1, 1, 1, 0, 0, 0],
                                     cartesian_convergence_thresholds := [1, 1, 1, 1, 1, 1],
                                     joint_update_rates := [2]\<rparr>) \<and>
   dof_nullity (example_goal\<lparr>dof_nullity := [1, 1, 1, 0, 0, 0],
                              cartesian_convergence_thresholds := [1, 1, 1, 1, 1, 1],
                              joint_update_rates := [2]\<rparr>) \<noteq> dof_nullity example_goal \<and>
   cartesian_convergence_thresholds (example_goal\<lparr>dof_nullity := [1, 1, 1, 0, 0, 0],
                              cartesian_convergence_thresholds := [1, 1, 1, 1, 1, 1],
                              joint_update_rates := [2]\<rparr>)
     \<noteq> cartesian_convergence_thresholds example_goal \<and>
   joint_update_rates (example_goal\<lparr>dof_nullity := [1, 1, 1, 0, 0, 0],
                              cartesian_convergence_thresholds := [1, 1, 1, 1, 1, 1],
                              joint_update_rates := [2]\<rparr>) \<noteq> joint_update_rates example_goal"
  using configure_string_budget by (simp add: example_goal_def)

text \<open>
  C3. With seven integer entries in \<open>constrained_dofs\<close> the guard does not reject
  (it tests for fewer than six), the array is resized to six and the seventh store fails
  the index check: \<open>configure\<close> does not return \<open>false\<close>.
\<close>

theorem configure_seven_entries:
  "configure example_goal seven_dofs_config = EigenAssert"
proof -
  have m1: "struct_member seven_dofs_config ''constrained_dofs''
      = Some (TypeArray [TypeInt 1, TypeInt 1, TypeInt 1, TypeInt 0, TypeInt 0, TypeInt 0, TypeInt 0])"
    by (simp add: seven_dofs_config_def)
  have m2: "struct_member seven_dofs_config ''cartesian_convergence''
      = Some (TypeArray [TypeDouble 1, TypeDouble 1, TypeDouble 1, TypeDouble 1, TypeDouble 1, TypeDouble 1])"
    by (simp add: seven_dofs_config_def)
  have m3: "struct_member seven_dofs_config ''joint_update_rates'' = Some (TypeArray [TypeDouble 2])"
    by (simp add: seven_dofs_config_def)
  have g: "\<not> invalid_array_parameters
       (TypeArray [TypeInt 1, TypeInt 1, TypeInt 1, TypeInt 0, TypeInt 0, TypeInt 0, TypeInt 0])
       (TypeArray [TypeDouble 1, TypeDouble 1, TypeDouble 1, TypeDouble 1, TypeDouble 1, TypeDouble 1])
       (TypeArray [TypeDouble 2])"
    by (simp add: invalid_array_parameters_def DOF_SIZE_def)
  have r1: "resize DOF_SIZE (dof_nullity example_goal) = [1, 1, 1, 1, 1, 1]"
    by (simp add: resize_def DOF_SIZE_def example_goal_def)
  have c1: "copy_loop cast_int
       [TypeInt 1, TypeInt 1, TypeInt 1, TypeInt 0, TypeInt 0, TypeInt 0, TypeInt 0] 0
       [1, 1, 1, 1, 1, 1] = IndexAssert"
    by simp
  show ?thesis
    unfolding configure_def load_parameters_def Let_def
    by (simp only: m1 m2 m3 g r1 c1 option.case if_False array_elems.simps copied.case)
qed

section \<open>Properties of computeTwist\<close>

declare runIK_loop.simps [simp del]
declare force_angle_range.simps [simp del]
declare inv_Sv_loop.simps [simp del]

lemma length_set_head3: "3 \<le> length tw \<Longrightarrow> length (set_head3 tw v) = length tw"
  by (cases v) (simp add: set_head3_def v3_list_def)

lemma length_set_tail3: "3 \<le> length tw \<Longrightarrow> length (set_tail3 tw v) = length tw"
  by (cases v) (simp add: set_tail3_def v3_list_def)

lemma set_tail3_nth:
  "3 \<le> length tw \<Longrightarrow> j < 3 \<Longrightarrow> set_tail3 tw v ! (length tw - 3 + j) = v3_list v ! j"
proof -
  have "(take (length tw - 3) tw @ v3_list v) ! (length (take (length tw - 3) tw) + j) = v3_list v ! j"
    by (rule nth_append_length_plus)
  moreover assume "3 \<le> length tw"
  then have "length (take (length tw - 3) tw) = length tw - 3" by simp
  ultimately show ?thesis by (simp only: set_tail3_def)
qed

lemma computeTwist_Returns:
  "3 \<le> length nullity \<Longrightarrow>
   computeTwist aa p0 pf nullity =
     Returns (map2 (\<lambda>n t. if n = 0 then 0 else t) nullity
       (set_tail3 (set_head3 (replicate (length nullity) 0)
           (v3_minus (translation pf) (translation p0)))
         (v3_scale (snd (aa (m3_times (m3_transpose (rotation p0)) (rotation pf))))
           (force_angle_range (fst (aa (m3_times (m3_transpose (rotation p0)) (rotation pf))))))))"
  by (simp add: computeTwist_def Let_def)

lemma force_angle_range_zero: "force_angle_range 0 = 0"
  by (subst force_angle_range.simps) simp

lemma example_twist:
  "computeTwist (toAngleAxis example_arm) (forward_kinematics example_arm [x])
     \<lparr>translation = (0, 0, 0), rotation = m3_identity\<rparr> [1, 1, 1, 1, 1, 1]
   = Returns [- x, 0, 0, 0, 0, 0]"
  by (simp add: computeTwist_def example_arm_def force_angle_range_zero Let_def set_head3_def
        set_tail3_def v3_minus_def v3_scale_def v3_list_def)

text \<open>
  C7. For a mask of at least three entries (six after \<open>configure\<close>), \<open>computeTwist\<close>
  returns a twist of the mask's size whose entry is exactly 0 at every index where the
  mask is 0, for any two poses and any angle and axis of the relative rotation.
\<close>

theorem computeTwist_free_axes_zero:
  "3 \<le> length nullity \<Longrightarrow>
     \<exists>twist. computeTwist aa p0 pf nullity = Returns twist \<and> length twist = length nullity \<and>
       (\<forall>i < length nullity. nullity ! i = 0 \<longrightarrow> twist ! i = 0)"
  by (simp add: computeTwist_Returns length_set_head3 length_set_tail3)

theorem computeTwist_free_axes_zero_witness:
  "3 \<le> length [1, 0, 1, 1, 0, 1 :: int32] \<and>
   (\<exists>twist. computeTwist (\<lambda>m. (2, (0, 0, 1)))
        \<lparr>translation = (1, 2, 3), rotation = m3_identity\<rparr>
        \<lparr>translation = (4, 6, 8), rotation = m3_identity\<rparr> [1, 0, 1, 1, 0, 1] = Returns twist \<and>
      length twist = 6 \<and> twist ! 1 = 0 \<and> twist ! 4 = 0)"
proof -
  have n: "3 \<le> length [1, 0, 1, 1, 0, 1 :: int32]" by simp
  from computeTwist_free_axes_zero [OF n, of "\<lambda>m. (2, (0, 0, 1))"
      "\<lparr>translation = (1, 2, 3), rotation = m3_identity\<rparr>"
      "\<lparr>translation = (4, 6, 8), rotation = m3_identity\<rparr>"]
  obtain twist where t: "computeTwist (\<lambda>m. (2, (0, 0, 1)))
        \<lparr>translation = (1, 2, 3), rotation = m3_identity\<rparr>
        \<lparr>translation = (4, 6, 8), rotation = m3_identity\<rparr> [1, 0, 1, 1, 0, 1] = Returns twist"
      and l: "length twist = length [1, 0, 1, 1, 0, 1 :: int32]"
      and z: "\<forall>i < length [1, 0, 1, 1, 0, 1 :: int32]. [1, 0, 1, 1, 0, 1 :: int32] ! i = 0 \<longrightarrow> twist ! i = 0"
    by blast
  from z [rule_format, of 1] have "twist ! 1 = 0" by (simp add: nth_Cons')
  moreover from z [rule_format, of 4] have "twist ! 4 = 0" by (simp add: nth_Cons')
  ultimately show ?thesis using t l by simp
qed

lemma force_angle_range_bounds:
  "- pi \<le> force_angle_range a \<and> force_angle_range a \<le> pi \<and>
   (\<exists>k :: int. force_angle_range a = a + 2 * pi * of_int k)"
proof (induction a rule: force_angle_range.induct)
  case (1 angle)
  show ?case
  proof (cases "angle > pi \<or> angle < - pi")
    case False
    then have "force_angle_range angle = angle"
      by (subst force_angle_range.simps) simp
    moreover have "angle = angle + 2 * pi * of_int 0" by simp
    ultimately show ?thesis using False by (metis not_less)
  next
    case True
    define next_angle where
      "next_angle = (let angle1 = (if angle > pi then angle - 2 * pi else angle)
                     in (if angle1 < - pi then angle1 + 2 * pi else angle1))"
    have step: "force_angle_range angle = force_angle_range next_angle"
      using True unfolding next_angle_def by (subst force_angle_range.simps) simp
    from 1 [OF True] have ih: "- pi \<le> force_angle_range next_angle \<and>
        force_angle_range next_angle \<le> pi \<and>
        (\<exists>k :: int. force_angle_range next_angle = next_angle + 2 * pi * of_int k)"
      unfolding next_angle_def by simp
    then obtain k :: int where k: "force_angle_range next_angle = next_angle + 2 * pi * of_int k"
      by blast
    have "next_angle = angle + 2 * pi * of_int (- 1) \<or> next_angle = angle + 2 * pi * of_int 1"
      using True unfolding next_angle_def Let_def by (auto simp: not_less)
    then have "\<exists>m :: int. force_angle_range next_angle = angle + 2 * pi * of_int m"
    proof
      assume a: "next_angle = angle + 2 * pi * of_int (- 1)"
      have "force_angle_range next_angle = angle + 2 * pi * of_int (k - 1)"
        by (subst k, subst a) (simp add: algebra_simps)
      then show ?thesis by blast
    next
      assume a: "next_angle = angle + 2 * pi * of_int 1"
      have "force_angle_range next_angle = angle + 2 * pi * of_int (k + 1)"
        by (subst k, subst a) (simp add: algebra_simps)
      then show ?thesis by blast
    qed
    with ih step show ?thesis by simp
  qed
qed

text \<open>
  C8. The last three entries of the returned twist are the axis of the relative rotation
  \<open>R0\<^sup>T Rf\<close> scaled by one angle, which lies in the closed range from \<open>-pi\<close> to \<open>pi\<close>
  and differs from the angle Eigen reports by a multiple of \<open>2 pi\<close> (or are 0 where the
  mask is 0).
\<close>

theorem computeTwist_rotation_range:
  "3 \<le> length nullity \<Longrightarrow>
     \<exists>twist angle. computeTwist aa p0 pf nullity = Returns twist \<and>
       - pi \<le> angle \<and> angle \<le> pi \<and>
       (\<exists>k :: int. angle = fst (aa (m3_times (m3_transpose (rotation p0)) (rotation pf)))
                              + 2 * pi * of_int k) \<and>
       (\<forall>j < 3. twist ! (length nullity - 3 + j) =
           (if nullity ! (length nullity - 3 + j) = 0 then 0
            else v3_list (snd (aa (m3_times (m3_transpose (rotation p0)) (rotation pf)))) ! j * angle))"
proof -
  assume n: "3 \<le> length nullity"
  let ?rel = "aa (m3_times (m3_transpose (rotation p0)) (rotation pf))"
  let ?angle = "force_angle_range (fst ?rel)"
  let ?tw = "set_tail3 (set_head3 (replicate (length nullity) 0)
           (v3_minus (translation pf) (translation p0))) (v3_scale (snd ?rel) ?angle)"
  have len: "length ?tw = length nullity"
    using n by (simp add: length_set_head3 length_set_tail3)
  have tail: "?tw ! (length nullity - 3 + j) = v3_list (snd ?rel) ! j * ?angle" if "j < 3" for j
  proof -
    have "?tw ! (length nullity - 3 + j) = v3_list (v3_scale (snd ?rel) ?angle) ! j"
      using set_tail3_nth [of "set_head3 (replicate (length nullity) 0)
           (v3_minus (translation pf) (translation p0))" j] n that
      by (simp add: length_set_head3)
    also have "\<dots> = v3_list (snd ?rel) ! j * ?angle"
      using that
      by (cases "snd ?rel")
        (auto simp: v3_scale_def v3_list_def nth_Cons' less_Suc_eq numeral_3_eq_3)
    finally show ?thesis .
  qed
  have "\<forall>j < 3. (map2 (\<lambda>n t. if n = 0 then 0 else t) nullity ?tw) ! (length nullity - 3 + j) =
           (if nullity ! (length nullity - 3 + j) = 0 then 0 else v3_list (snd ?rel) ! j * ?angle)"
    using n len tail by auto
  with force_angle_range_bounds [of "fst ?rel"] computeTwist_Returns [OF n, of aa p0 pf]
  show ?thesis by blast
qed

theorem computeTwist_rotation_range_witness:
  "3 \<le> length [1, 1, 1, 1, 1, 1 :: int32] \<and>
   (\<exists>twist angle. computeTwist (\<lambda>m. (3 * pi, (0, 0, 1)))
        \<lparr>translation = (0, 0, 0), rotation = m3_identity\<rparr>
        \<lparr>translation = (0, 0, 0), rotation = m3_identity\<rparr> [1, 1, 1, 1, 1, 1] = Returns twist \<and>
      - pi \<le> angle \<and> angle \<le> pi \<and> twist ! 5 = angle)"
proof -
  have n: "3 \<le> length [1, 1, 1, 1, 1, 1 :: int32]" by simp
  from computeTwist_rotation_range [OF n, of "\<lambda>m. (3 * pi, (0, 0, 1))"
      "\<lparr>translation = (0, 0, 0), rotation = m3_identity\<rparr>"
      "\<lparr>translation = (0, 0, 0), rotation = m3_identity\<rparr>"]
  obtain twist angle where t: "computeTwist (\<lambda>m. (3 * pi, (0, 0, 1)))
        \<lparr>translation = (0, 0, 0), rotation = m3_identity\<rparr>
        \<lparr>translation = (0, 0, 0), rotation = m3_identity\<rparr> [1, 1, 1, 1, 1, 1] = Returns twist"
      and b: "- pi \<le> angle" "angle \<le> pi"
      and r: "\<forall>j < 3. twist ! (length [1, 1, 1, 1, 1, 1 :: int32] - 3 + j) =
           (if [1, 1, 1, 1, 1, 1 :: int32] ! (length [1, 1, 1, 1, 1, 1 :: int32] - 3 + j) = 0 then 0
            else v3_list (snd (3 * pi, (0 :: real, 0 :: real, 1 :: real))) ! j * angle)"
    by auto
  from r [rule_format, of 2] have "twist ! 5 = angle"
    by (simp add: nth_Cons' v3_list_def eval_nat_numeral)
  with t b n show ?thesis by blast
qed

section \<open>Properties of runIK and filter\<close>

text \<open>
  C10. With an iteration budget of 0 the loop body is never entered: \<open>runIK\<close> returns
  \<open>false\<close> with the initial joint vector after 0 iterations, whatever the goal, the
  initial joint vector, the thresholds and the kinematic model are.
\<close>

theorem runIK_zero_budget:
  "max_iterations s = 0 \<Longrightarrow> runIK c s tool_goal init_joint_pose = Returns (False, init_joint_pose, 0)"
  by (simp add: runIK_def runIK_loop.simps)

theorem runIK_zero_budget_witness:
  "max_iterations (example_goal\<lparr>max_iterations := 0\<rparr>) = 0 \<and>
   forward_kinematics example_arm [0] = tool_goal_pose example_goal \<and>
   runIK example_arm (example_goal\<lparr>max_iterations := 0\<rparr>) (tool_goal_pose example_goal) [0]
     = Returns (False, [0], 0)"
proof -
  have z: "max_iterations (example_goal\<lparr>max_iterations := 0\<rparr>) = 0" by simp
  have "forward_kinematics example_arm [0] = tool_goal_pose example_goal"
    by (simp add: example_arm_def example_goal_def)
  with z runIK_zero_budget [OF z, of example_arm "tool_goal_pose example_goal" "[0]"]
  show ?thesis by simp
qed

subsection \<open>Runs of the example chain\<close>

lemma example_indices: "constrained_indices (dof_nullity example_goal) = [0, Suc 0, 2, 3, 4, 5]"
  by (simp add: constrained_indices_def example_goal_def upt_rec [of 0] upt_rec [of 1]
        upt_rec [of 2] upt_rec [of 3] upt_rec [of 4] upt_rec [of 5] nth_Cons')

lemma example_inv_Sv: "inv_Sv_loop [1] EPSILON LAMBDA 0 [u] = [1]"
  by (simp add: inv_Sv_loop.simps [of _ _ _ 0] inv_Sv_loop.simps [of _ _ _ "Suc 0"] EPSILON_def)

lemma example_update:
  "joint_update_rates s = [1] \<Longrightarrow>
   update_joint_pose example_arm s [0, Suc 0, 2, 3, 4, 5] [- x, 0, 0, 0, 0, 0]
     example_jacobian
     (forward_kinematics example_arm [x]) [x] = Returns [0]"
  by (simp add: update_joint_pose_def rotate_bottomRows_def reduceJacobian_def
        calculateDampedPseudoInverse_def example_arm_def example_jacobian_def m3_identity_def
        m3_transpose_def m3_apply_def v3_plus_def v3_scale_def v3_list_def mat_times_def
        asDiagonal_def transpose_m_def mat_vec_def array_times_def vec_plus_def example_inv_Sv
        lessThan_Suc eval_nat_numeral Let_def)

lemma example_jacobian:
  "getJacobian example_arm q = Some example_jacobian"
  by (simp add: example_arm_def)

lemma example_toAngleAxis: "toAngleAxis (no_jacobian_arm) = toAngleAxis example_arm"
  "forward_kinematics no_jacobian_arm = forward_kinematics example_arm"
  "getJacobian no_jacobian_arm q = None"
  by (simp_all add: no_jacobian_arm_def)

lemma example_loop_step:
  assumes "dof_nullity s = [1, 1, 1, 1, 1, 1]"
    and "cartesian_convergence_thresholds s = [h, h, h, h, h, h]"
    and "joint_update_rates s = [1]"
    and "n < unat (max_iterations s)"
    and "\<not> \<bar>x\<bar> < h"
  shows "runIK_loop example_arm s \<lparr>translation = (0, 0, 0), rotation = m3_identity\<rparr>
           [0, Suc 0, 2, 3, 4, 5] n [x] (forward_kinematics example_arm [x])
         = runIK_loop example_arm s \<lparr>translation = (0, 0, 0), rotation = m3_identity\<rparr>
           [0, Suc 0, 2, 3, 4, 5] (Suc n) [0] (forward_kinematics example_arm [0])"
  using assms
  by (subst runIK_loop.simps)
    (simp add: example_twist example_update example_jacobian twist_below_thresholds_def)

lemma example_loop_converged:
  assumes "dof_nullity s = [1, 1, 1, 1, 1, 1]"
    and "cartesian_convergence_thresholds s = [h, h, h, h, h, h]"
    and "n < unat (max_iterations s)"
    and "0 < h"
  shows "runIK_loop example_arm s \<lparr>translation = (0, 0, 0), rotation = m3_identity\<rparr>
           [0, Suc 0, 2, 3, 4, 5] n [0] (forward_kinematics example_arm [0])
         = Returns (True, [0], n)"
  using assms
  by (subst runIK_loop.simps)
    (simp add: example_twist [of 0, simplified] twist_below_thresholds_def)

lemma example_loop_exhausted:
  assumes "\<not> n < unat (max_iterations s)"
  shows "runIK_loop c s g ix n q p = Returns (False, q, n)"
  using assms by (subst runIK_loop.simps) simp

lemma example_runIK_converges:
  "runIK example_arm example_goal (tool_goal_pose example_goal) [1] = Returns (True, [0], 1)"
proof -
  have u: "unat (max_iterations example_goal) = 100" by (simp add: example_goal_def)
  have g: "tool_goal_pose example_goal =  \<lparr>translation = (0, 0, 0), rotation = m3_identity\<rparr>"
    by (simp add: example_goal_def)
  show ?thesis
    unfolding runIK_def example_indices g
    by (subst example_loop_step [where h = "1/100"])
       (simp_all add: example_goal_def example_loop_converged [where h = "1/100"])
qed

lemma example_runIK_exhausted:
  "runIK example_arm (example_goal\<lparr>max_iterations := 1\<rparr>) (tool_goal_pose example_goal) [1]
     = Returns (False, [0], 1)"
proof -
  have g: "tool_goal_pose example_goal =  \<lparr>translation = (0, 0, 0), rotation = m3_identity\<rparr>"
    by (simp add: example_goal_def)
  have i: "constrained_indices (dof_nullity (example_goal\<lparr>max_iterations := 1\<rparr>)) = [0, Suc 0, 2, 3, 4, 5]"
    using example_indices by simp
  show ?thesis
    unfolding runIK_def i g
    by (subst example_loop_step [where h = "1/100"])
       (simp_all add: example_goal_def example_loop_exhausted)
qed

lemma example_runIK_no_jacobian:
  "runIK no_jacobian_arm example_goal (tool_goal_pose example_goal) [1] = Returns (False, [1], 0)"
proof -
  have g: "tool_goal_pose example_goal =  \<lparr>translation = (0, 0, 0), rotation = m3_identity\<rparr>"
    by (simp add: example_goal_def)
  show ?thesis
    unfolding runIK_def example_indices g
    by (subst runIK_loop.simps)
      (simp add: example_toAngleAxis example_twist twist_below_thresholds_def example_goal_def)
qed

lemma example_rightCols1: "rightCols1 example_parameters = Returns [1]"
  by (simp add: rightCols1_def example_parameters_def)

subsection \<open>The failure path of filter\<close>

text \<open>
  C1, as amended. Whenever \<open>runIK\<close> fails on the last waypoint (budget exhausted or
  Jacobian unavailable), \<open>filter\<close> sets \<open>filtered\<close> to \<open>false\<close>, leaves the matrix as
  it was, and returns \<open>false\<close>: the failure is reported through the function's own
  return value as well.
\<close>

theorem filter_failure_reported:
  "rightCols1 parameters = Returns init_joint_pose \<Longrightarrow>
   runIK c s (tool_goal_pose s) init_joint_pose = Returns (False, joint_pose, n) \<Longrightarrow>
   filter_parameters c s parameters = Returns (False, False, parameters)"
  by (simp add: filter_parameters_def)

theorem filter_failure_reported_witness:
  "rightCols1 example_parameters = Returns [1] \<and>
   runIK example_arm (example_goal\<lparr>max_iterations := 1\<rparr>)
     (tool_goal_pose (example_goal\<lparr>max_iterations := 1\<rparr>)) [1] = Returns (False, [0], 1) \<and>
   filter_parameters example_arm (example_goal\<lparr>max_iterations := 1\<rparr>) example_parameters
     = Returns (False, False, example_parameters)"
proof -
  have r: "runIK example_arm (example_goal\<lparr>max_iterations := 1\<rparr>)
     (tool_goal_pose (example_goal\<lparr>max_iterations := 1\<rparr>)) [1] = Returns (False, [0], 1)"
    using example_runIK_exhausted by simp
  from filter_failure_reported [OF example_rightCols1 r] example_rightCols1 r
  show ?thesis by blast
qed

text \<open>
  C1, as stated, fails: when the Jacobian is unavailable the call does not come back as
  a successful call with \<open>filtered = false\<close>; its return value is \<open>false\<close>.
\<close>

theorem filter_failure_counterexample:
  "runIK no_jacobian_arm example_goal (tool_goal_pose example_goal) [1] = Returns (False, [1], 0) \<and>
   filter_parameters no_jacobian_arm example_goal example_parameters
     = Returns (False, False, example_parameters) \<and>
   filter_parameters no_jacobian_arm example_goal example_parameters
     \<noteq> Returns (True, False, example_parameters)"
  by (simp add: filter_parameters_def example_rightCols1 example_runIK_no_jacobian)

subsection \<open>The frame of filter\<close>

lemma rightCols1_Returns:
  "rightCols1 p = Returns v \<longleftrightarrow>
     0 < cols p \<and> v = map (\<lambda>i. coeff p i (cols p - 1)) [0..<rows p]"
  by (auto simp: rightCols1_def)

lemma rightCols1_set:
  "set_rightCols1 p v = Returns p' \<Longrightarrow>
     rows p' = rows p \<and> cols p' = cols p \<and> rightCols1 p' = Returns v \<and>
     (\<forall>i j. j \<noteq> cols p - 1 \<longrightarrow> coeff p' i j = coeff p i j)"
  by (auto simp: set_rightCols1_def rightCols1_def split: if_splits intro!: nth_equalityI)

lemma set_rightCols1_ok:
  "0 < cols p \<Longrightarrow> length v = rows p \<Longrightarrow> \<exists>p'. set_rightCols1 p v = Returns p'"
  by (simp add: set_rightCols1_def)

lemma filter_frame:
  "filter_parameters c s parameters = Returns (r, filtered, parameters') \<Longrightarrow>
     rows parameters' = rows parameters \<and> cols parameters' = cols parameters \<and>
     (\<forall>i j. j \<noteq> cols parameters - 1 \<longrightarrow> coeff parameters' i j = coeff parameters i j) \<and>
     (r \<longrightarrow> filtered \<and> (\<exists>init joint_pose n. rightCols1 parameters = Returns init \<and>
            runIK c s (tool_goal_pose s) init = Returns (True, joint_pose, n) \<and>
            rightCols1 parameters' = Returns joint_pose)) \<and>
     (\<not> r \<longrightarrow> \<not> filtered \<and> parameters' = parameters)"
  unfolding filter_parameters_def
  by (auto split: outcome.splits if_splits prod.splits dest: rightCols1_set)

lemma filter_reads_last_column:
  assumes eq: "rightCols1 p = rightCols1 q"
  shows "case filter_parameters c s p of
        EigenAssert \<Rightarrow> filter_parameters c s q = EigenAssert
      | Returns (r, filtered, p') \<Rightarrow>
          (\<exists>q'. filter_parameters c s q = Returns (r, filtered, q') \<and> rightCols1 p' = rightCols1 q')"
proof (cases "rightCols1 p")
  case EigenAssert
  with eq show ?thesis by (simp add: filter_parameters_def)
next
  case (Returns init)
  with eq have q: "rightCols1 q = Returns init" by simp
  from Returns q have dims: "0 < cols p" "0 < cols q" "rows p = rows q"
    by (auto simp: rightCols1_Returns dest: arg_cong [where f = length])
  show ?thesis
  proof (cases "runIK c s (tool_goal_pose s) init")
    case EigenAssert
    with Returns q show ?thesis by (simp add: filter_parameters_def)
  next
    case R: (Returns res)
    obtain b jp n where res: "res = (b, jp, n)" by (cases res)
    show ?thesis
    proof (cases b)
      case False
      with Returns q R res eq show ?thesis by (simp add: filter_parameters_def)
    next
      case True
      show ?thesis
      proof (cases "length jp = rows p")
        case False
        with dims have "set_rightCols1 p jp = EigenAssert" "set_rightCols1 q jp = EigenAssert"
          by (simp_all add: set_rightCols1_def)
        with Returns q R res True show ?thesis by (simp add: filter_parameters_def)
      next
        case len: True
        with dims obtain p' q'
          where pq: "set_rightCols1 p jp = Returns p'" "set_rightCols1 q jp = Returns q'"
          using set_rightCols1_ok [of p jp] set_rightCols1_ok [of q jp] by auto
        then have "rightCols1 p' = Returns jp" "rightCols1 q' = Returns jp"
          by (auto dest: rightCols1_set)
        with Returns q R res True pq show ?thesis by (simp add: filter_parameters_def)
      qed
    qed
  qed
qed

text \<open>
  C9. When \<open>filter\<close> returns, the matrix keeps its shape and every coefficient outside
  the last column; on success the last column is the joint vector \<open>runIK\<close> solved from
  the old last column; on failure the matrix is unchanged. The call reads only the last
  column: two matrices with the same last column give the same flags and the same new
  last column (or both fail Eigen's check).
\<close>

theorem filter_last_column_only:
  "(filter_parameters c s parameters = Returns (r, filtered, parameters') \<longrightarrow>
     rows parameters' = rows parameters \<and> cols parameters' = cols parameters \<and>
     (\<forall>i j. j \<noteq> cols parameters - 1 \<longrightarrow> coeff parameters' i j = coeff parameters i j) \<and>
     (r \<longrightarrow> filtered \<and> (\<exists>init joint_pose n. rightCols1 parameters = Returns init \<and>
            runIK c s (tool_goal_pose s) init = Returns (True, joint_pose, n) \<and>
            rightCols1 parameters' = Returns joint_pose)) \<and>
     (\<not> r \<longrightarrow> \<not> filtered \<and> parameters' = parameters)) \<and>
   (rightCols1 parameters = rightCols1 q \<longrightarrow>
     (case filter_parameters c s parameters of
        EigenAssert \<Rightarrow> filter_parameters c s q = EigenAssert
      | Returns (r, filtered, p') \<Rightarrow>
          (\<exists>q'. filter_parameters c s q = Returns (r, filtered, q') \<and> rightCols1 p' = rightCols1 q')))"
  using filter_frame [of c s parameters r filtered parameters']
    filter_reads_last_column [of parameters q c s]
  by blast

theorem filter_last_column_only_witness:
  "\<exists>p'. filter_parameters example_arm example_goal example_parameters = Returns (True, True, p') \<and>
     rows p' = 1 \<and> cols p' = 2 \<and> coeff p' 0 0 = 5 \<and> rightCols1 p' = Returns [0]"
proof -
  obtain p' where p': "set_rightCols1 example_parameters [0] = Returns p'"
    using set_rightCols1_ok [of example_parameters "[0]"] by (auto simp: example_parameters_def)
  have f: "filter_parameters example_arm example_goal example_parameters = Returns (True, True, p')"
    by (simp add: filter_parameters_def example_rightCols1 example_runIK_converges p')
  from filter_last_column_only [of example_arm example_goal example_parameters True True p']
  have fr: "rows p' = rows example_parameters" "cols p' = cols example_parameters"
      "\<forall>i j. j \<noteq> cols example_parameters - 1 \<longrightarrow> coeff p' i j = coeff example_parameters i j"
      "\<exists>init joint_pose n. rightCols1 example_parameters = Returns init \<and>
            runIK example_arm example_goal (tool_goal_pose example_goal) init = Returns (True, joint_pose, n) \<and>
            rightCols1 p' = Returns joint_pose"
    using f by blast+
  from fr(4) have "rightCols1 p' = Returns [0]"
    by (auto simp: example_rightCols1 example_runIK_converges)
  moreover from fr(3) [rule_format, of 0 0] have "coeff p' 0 0 = 5"
    by (simp add: example_parameters_def)
  ultimately show ?thesis using f fr(1,2) by (auto simp: example_parameters_def)
qed

section \<open>Properties of the damped pseudo-inverse\<close>

lemma inv_Sv_loop_eq:
  "i \<le> length Sv \<Longrightarrow> length acc = length Sv \<Longrightarrow>
   inv_Sv_loop Sv eps lambda i acc
     = take i acc @ map (spec_inverse_contribution eps lambda) (drop i Sv)"
proof (induction Sv eps lambda i acc rule: inv_Sv_loop.induct)
  case (1 Sv eps lambda i inv_Sv)
  show ?case
  proof (cases "i < length Sv")
    case False
    with "1.prems" show ?thesis
      by (subst inv_Sv_loop.simps) simp
  next
    case True
    let ?x = "if \<bar>Sv ! i\<bar> > eps then 1 / (Sv ! i) else Sv ! i / (Sv ! i * Sv ! i + lambda * lambda)"
    have x: "?x = spec_inverse_contribution eps lambda (Sv ! i)"
      by (simp add: spec_inverse_contribution_def power2_eq_square)
    have "inv_Sv_loop Sv eps lambda i inv_Sv = inv_Sv_loop Sv eps lambda (Suc i) (inv_Sv[i := ?x])"
      using True by (subst inv_Sv_loop.simps) simp
    also have "\<dots> = take (Suc i) (inv_Sv[i := ?x])
         @ map (spec_inverse_contribution eps lambda) (drop (Suc i) Sv)"
      using "1.IH" [OF True] True "1.prems" by simp
    also have "take (Suc i) (inv_Sv[i := ?x]) = take i inv_Sv @ [?x]"
      using True "1.prems" by (simp add: take_Suc_conv_app_nth)
    also have "(take i inv_Sv @ [?x]) @ map (spec_inverse_contribution eps lambda) (drop (Suc i) Sv)
        = take i inv_Sv @ map (spec_inverse_contribution eps lambda) (drop i Sv)"
      using True x by (simp add: Cons_nth_drop_Suc [symmetric])
    finally show ?thesis .
  qed
qed

lemma inv_Sv_loop_map:
  "inv_Sv_loop Sv eps lambda 0 (replicate (length Sv) u) = map (spec_inverse_contribution eps lambda) Sv"
  by (simp add: inv_Sv_loop_eq)

lemma calculateDampedPseudoInverse_eq:
  assumes svd: "svd jacb = (U, Sv, V)"
    and dv: "cols V = length Sv" and du: "cols U = length Sv"
  shows "calculateDampedPseudoInverse svd jacb eps lambda =
     Returns \<lparr>rows = rows V, cols = rows U,
              coeff = (\<lambda>i j. \<Sum>k<length Sv.
                         coeff V i k * spec_inverse_contribution eps lambda (Sv ! k) * coeff U j k)\<rparr>"
proof -
  have inner: "(\<Sum>k<length Sv. coeff V i k *
          (if k = k' then map (spec_inverse_contribution eps lambda) Sv ! k else 0))
        = coeff V i k' * spec_inverse_contribution eps lambda (Sv ! k')"
    if "k' < length Sv" for i k'
  proof -
    have "(\<Sum>k<length Sv. coeff V i k *
          (if k = k' then map (spec_inverse_contribution eps lambda) Sv ! k else 0))
        = (\<Sum>k<length Sv. if k = k' then coeff V i k' * spec_inverse_contribution eps lambda (Sv ! k') else 0)"
      by (rule sum.cong) (auto simp: that)
    also have "\<dots> = coeff V i k' * spec_inverse_contribution eps lambda (Sv ! k')"
      using that by (simp add: sum.delta')
    finally show ?thesis .
  qed
  have "(\<lambda>i j. \<Sum>k'<length Sv. (\<Sum>k<length Sv. coeff V i k *
          (if k = k' then map (spec_inverse_contribution eps lambda) Sv ! k else 0)) * coeff U j k')
      = (\<lambda>i j. \<Sum>k<length Sv.
                         coeff V i k * spec_inverse_contribution eps lambda (Sv ! k) * coeff U j k)"
    by (intro ext sum.cong) (simp_all add: inner)
  moreover have "calculateDampedPseudoInverse svd jacb eps lambda =
      (case mat_times V (asDiagonal (map (spec_inverse_contribution eps lambda) Sv)) of
         EigenAssert \<Rightarrow> EigenAssert
       | Returns vs \<Rightarrow> mat_times vs (transpose_m U))"
    unfolding calculateDampedPseudoInverse_def svd Let_def inv_Sv_loop_map by simp
  ultimately show ?thesis
    using dv du by (simp add: mat_times_def asDiagonal_def transpose_m_def)
qed



section \<open>Termination of runIK within the budget\<close>

lemma runIK_loop_pass:
  "runIK_loop c s goal (constrained_indices (dof_nullity s)) k jp (forward_kinematics c jp) =
     (if k < unat (max_iterations s) then
        (case loop_pass c s goal jp of
           CheckFailed \<Rightarrow> EigenAssert
         | Converged \<Rightarrow> Returns (True, jp, k)
         | JacobianUnavailable \<Rightarrow> Returns (False, jp, k)
         | Updated jp1 \<Rightarrow>
             runIK_loop c s goal (constrained_indices (dof_nullity s)) (Suc k) jp1
               (forward_kinematics c jp1))
      else Returns (False, jp, k))"
  by (subst runIK_loop.simps) (simp add: loop_pass_def split: outcome.splits option.splits)

lemma runIK_loop_trace:
  "runIK_loop c s goal (constrained_indices (dof_nullity s)) k jp (forward_kinematics c jp)
      = Returns (b, jp', n) \<Longrightarrow>
   k \<le> unat (max_iterations s) \<Longrightarrow>
     k \<le> n \<and> n \<le> unat (max_iterations s) \<and>
     joint_pose_after c s goal jp (n - k) = Some jp' \<and>
     (b \<longrightarrow> n < unat (max_iterations s) \<and> loop_pass c s goal jp' = Converged) \<and>
     (\<not> b \<longrightarrow> n = unat (max_iterations s) \<or> loop_pass c s goal jp' = JacobianUnavailable)"
proof (induction "unat (max_iterations s) - k" arbitrary: k jp)
  case 0
  then have "\<not> k < unat (max_iterations s)" by simp
  with "0.prems" show ?case by (simp add: runIK_loop_pass)
next
  case (Suc m)
  then have lt: "k < unat (max_iterations s)" by simp
  show ?case
  proof (cases "loop_pass c s goal jp")
    case Converged
    with Suc.prems lt show ?thesis by (simp add: runIK_loop_pass)
  next
    case JacobianUnavailable
    with Suc.prems lt show ?thesis by (simp add: runIK_loop_pass)
  next
    case CheckFailed
    with Suc.prems lt show ?thesis by (simp add: runIK_loop_pass)
  next
    case (Updated jp1)
    with Suc.prems lt
    have rec: "runIK_loop c s goal (constrained_indices (dof_nullity s)) (Suc k) jp1
        (forward_kinematics c jp1) = Returns (b, jp', n)"
      by (simp add: runIK_loop_pass)
    from Suc.hyps(2) have m: "m = unat (max_iterations s) - Suc k" by simp
    from lt have le: "Suc k \<le> unat (max_iterations s)" by simp
    note ih = Suc.hyps(1) [OF m rec le]
    from ih have "Suc k \<le> n" by blast
    then have "n - k = Suc (n - Suc k)" by arith
    with ih Updated show ?thesis by simp
  qed
qed

lemma runIK_loop_exhausts:
  "joint_pose_after c s goal jp m = Some jp' \<Longrightarrow> k + m = unat (max_iterations s) \<Longrightarrow>
   runIK_loop c s goal (constrained_indices (dof_nullity s)) k jp (forward_kinematics c jp)
      = Returns (False, jp', unat (max_iterations s))"
proof (induction m arbitrary: k jp)
  case 0
  then show ?case by (simp add: runIK_loop_pass)
next
  case (Suc m)
  then have lt: "k < unat (max_iterations s)" by simp
  from Suc.prems(1) obtain jp1 where u: "loop_pass c s goal jp = Updated jp1"
    and a: "joint_pose_after c s goal jp1 m = Some jp'"
    by (auto split: pass.splits)
  from Suc.prems(2) have "Suc k + m = unat (max_iterations s)" by simp
  from Suc.IH [OF a this] u lt show ?case by (simp add: runIK_loop_pass)
qed

lemma constrained_indices_bound: "i \<in> set (constrained_indices nullity) \<Longrightarrow> i < length nullity"
  by (auto simp: constrained_indices_def)

lemma update_joint_pose_total:
  assumes wd: "well_dimensioned c s N"
    and jp: "length jp = N"
    and jac: "getJacobian c q = Some jacb"
  shows "\<exists>jp'. update_joint_pose c s (constrained_indices (dof_nullity s)) tw jacb cur jp = Returns jp'
           \<and> length jp' = N"
proof -
  let ?ix = "constrained_indices (dof_nullity s)"
  from wd jac have dims: "rows jacb = 6" "cols jacb = N"
    by (auto simp: well_dimensioned_def DOF_SIZE_def)
  obtain jacb1 where j1: "rotate_bottomRows (m3_transpose (rotation cur)) jacb = Returns jacb1"
    and d1: "rows jacb1 = 6" "cols jacb1 = N"
    using dims by (simp add: rotate_bottomRows_def)
  from wd have "\<forall>i \<in> set ?ix. i < 6"
    by (auto simp: well_dimensioned_def DOF_SIZE_def dest: constrained_indices_bound)
  then obtain jred where jr: "reduceJacobian jacb1 ?ix = Returns jred"
    and dr: "rows jred = length ?ix" "cols jred = N"
    using d1 by (auto simp: reduceJacobian_def not_le)
  obtain U Sv V where svd: "jacobiSVD c jred = (U, Sv, V)" by (cases "jacobiSVD c jred")
  with wd dr have ds: "rows U = length ?ix" "cols U = length Sv" "rows V = N" "cols V = length Sv"
    using well_dimensioned_def [of c s N] by (auto split: prod.splits)
  obtain pinv where pi: "calculateDampedPseudoInverse (jacobiSVD c) jred EPSILON LAMBDA = Returns pinv"
    and dp: "rows pinv = N" "cols pinv = length ?ix"
    using calculateDampedPseudoInverse_eq [of "jacobiSVD c" jred U Sv V EPSILON LAMBDA] svd ds by simp
  obtain delta where de: "mat_vec pinv (map (\<lambda>i. tw ! i) ?ix) = Returns delta" and dl: "length delta = N"
    using dp by (simp add: mat_vec_def)
  from wd have "length (joint_update_rates s) = N" by (simp add: well_dimensioned_def)
  then obtain change where ch: "array_times (joint_update_rates s) delta = Returns change"
    and cl: "length change = N"
    using dl by (simp add: array_times_def)
  from jp cl have "\<exists>jp'. vec_plus jp change = Returns jp' \<and> length jp' = N"
    by (simp add: vec_plus_def)
  with j1 jr pi de ch show ?thesis
    by (simp add: update_joint_pose_def)
qed

lemma runIK_loop_total:
  assumes wd: "well_dimensioned c s N"
  shows "length jp = N \<Longrightarrow>
     \<exists>b jp' n. runIK_loop c s goal (constrained_indices (dof_nullity s)) k jp cur = Returns (b, jp', n)
        \<and> length jp' = N"
  using wd
proof (induction c s goal "constrained_indices (dof_nullity s)" k jp cur rule: runIK_loop.induct)
  case (1 c s goal k jp cur)
  let ?ix = "constrained_indices (dof_nullity s)"
  show ?case
  proof (cases "k < unat (max_iterations s)")
    case False
    with "1.prems" show ?thesis
      by (subst runIK_loop.simps) auto
  next
    case True
    from "1.prems"(2) have n6: "length (dof_nullity s) = 6" "length (cartesian_convergence_thresholds s) = 6"
      by (simp_all add: well_dimensioned_def DOF_SIZE_def)
    then obtain tw where tw: "computeTwist (toAngleAxis c) cur goal (dof_nullity s) = Returns tw"
      and ltw: "length tw = 6"
      using computeTwist_Returns [of "dof_nullity s" "toAngleAxis c" cur goal]
      by (simp add: length_set_head3 length_set_tail3)
    with n6 obtain below where
      below: "twist_below_thresholds tw (cartesian_convergence_thresholds s) = Returns below"
      by (simp add: twist_below_thresholds_def)
    show ?thesis
    proof (cases below)
      case True
      with \<open>k < unat (max_iterations s)\<close> tw below "1.prems" show ?thesis
        by (subst runIK_loop.simps) auto
    next
      case nb: False
      show ?thesis
      proof (cases "getJacobian c jp")
        case None
        with True tw below nb "1.prems" show ?thesis
          by (subst runIK_loop.simps) auto
      next
        case (Some jacb)
        from update_joint_pose_total [OF "1.prems"(2) "1.prems"(1) Some, of tw cur]
        obtain jp1 where up: "update_joint_pose c s ?ix tw jacb cur jp = Returns jp1"
          and l1: "length jp1 = N" by blast
        from "1.hyps" [OF True tw below nb Some up l1 "1.prems"(2)]
        obtain b jp' n where "runIK_loop c s goal ?ix (Suc k) jp1 (forward_kinematics c jp1) = Returns (b, jp', n)"
          "length jp' = N" by blast
        with True tw below nb Some up show ?thesis
          by (subst runIK_loop.simps) auto
      qed
    qed
  qed
qed

text \<open>
  C5, as amended. The loop of \<open>runIK\<close> always ends, after at most \<open>max_iterations\<close>
  joint updates where the stored \<^verbatim>\<open>int\<close> is read as an unsigned 32-bit number, as line
  302 compares it. For sizes that fit (six mask entries and thresholds, one update rate per
  joint, a Jacobian of 6 rows and as many columns as joints, fitting factors of the
  decomposition) no check of Eigen fails and \<open>runIK\<close> returns a flag and a joint vector.
  Whenever it returns, the joint vector is the one obtained from the initial one by
  exactly \<open>iteration_count\<close> joint updates; it returns \<open>true\<close> only on a satisfied
  convergence test below the budget, and \<open>false\<close> only with the budget used up or the
  Jacobian unavailable. When every pass up to the budget makes an update, it returns
  \<open>false\<close> with the joint vector after these updates.
\<close>

theorem runIK_within_budget:
  "(well_dimensioned c s (length init_joint_pose) \<longrightarrow>
      (\<exists>converged joint_pose n. runIK c s tool_goal init_joint_pose = Returns (converged, joint_pose, n)
          \<and> length joint_pose = length init_joint_pose)) \<and>
   (runIK c s tool_goal init_joint_pose = Returns (converged, joint_pose, n) \<longrightarrow>
      n \<le> unat (max_iterations s) \<and>
      joint_pose_after c s tool_goal init_joint_pose n = Some joint_pose \<and>
      (converged \<longrightarrow> n < unat (max_iterations s) \<and> loop_pass c s tool_goal joint_pose = Converged) \<and>
      (\<not> converged \<longrightarrow> n = unat (max_iterations s) \<or>
          loop_pass c s tool_goal joint_pose = JacobianUnavailable)) \<and>
   (joint_pose_after c s tool_goal init_joint_pose (unat (max_iterations s)) = Some exhausted_pose \<longrightarrow>
      runIK c s tool_goal init_joint_pose = Returns (False, exhausted_pose, unat (max_iterations s)))"
proof (intro conjI impI)
  assume "well_dimensioned c s (length init_joint_pose)"
  from runIK_loop_total [OF this refl]
  show "\<exists>converged joint_pose n. runIK c s tool_goal init_joint_pose = Returns (converged, joint_pose, n)
          \<and> length joint_pose = length init_joint_pose"
    unfolding runIK_def by blast
next
  assume r: "runIK c s tool_goal init_joint_pose = Returns (converged, joint_pose, n)"
  have t: "0 \<le> n \<and> n \<le> unat (max_iterations s) \<and>
     joint_pose_after c s tool_goal init_joint_pose (n - 0) = Some joint_pose \<and>
     (converged \<longrightarrow> n < unat (max_iterations s) \<and> loop_pass c s tool_goal joint_pose = Converged) \<and>
     (\<not> converged \<longrightarrow> n = unat (max_iterations s) \<or>
          loop_pass c s tool_goal joint_pose = JacobianUnavailable)"
    by (rule runIK_loop_trace [OF r [unfolded runIK_def]]) simp
  from t show "n \<le> unat (max_iterations s)" by simp
  from t show "joint_pose_after c s tool_goal init_joint_pose n = Some joint_pose" by simp
  from t show "n < unat (max_iterations s)" if converged using that by simp
  from t show "loop_pass c s tool_goal joint_pose = Converged" if converged using that by simp
  from t show "n = unat (max_iterations s) \<or> loop_pass c s tool_goal joint_pose = JacobianUnavailable"
    if "\<not> converged" using that by simp
next
  assume "joint_pose_after c s tool_goal init_joint_pose (unat (max_iterations s)) = Some exhausted_pose"
  from runIK_loop_exhausts [OF this, of 0]
  show "runIK c s tool_goal init_joint_pose = Returns (False, exhausted_pose, unat (max_iterations s))"
    unfolding runIK_def by simp
qed

lemma example_well_dimensioned:
  "dof_nullity s = [1, 1, 1, 1, 1, 1] \<Longrightarrow> length (cartesian_convergence_thresholds s) = 6 \<Longrightarrow>
   length (joint_update_rates s) = 1 \<Longrightarrow> well_dimensioned example_arm s 1"
  by (simp add: well_dimensioned_def DOF_SIZE_def example_arm_def example_jacobian_def)

lemma example_update_rate:
  "joint_update_rates s = [r] \<Longrightarrow>
   update_joint_pose example_arm s [0, Suc 0, 2, 3, 4, 5] [- x, 0, 0, 0, 0, 0]
     example_jacobian (forward_kinematics example_arm [x]) [x] = Returns [x - r * x]"
  by (simp add: update_joint_pose_def rotate_bottomRows_def reduceJacobian_def
        calculateDampedPseudoInverse_def example_arm_def example_jacobian_def m3_identity_def
        m3_transpose_def m3_apply_def v3_plus_def v3_scale_def v3_list_def mat_times_def
        asDiagonal_def transpose_m_def mat_vec_def array_times_def vec_plus_def example_inv_Sv
        lessThan_Suc eval_nat_numeral Let_def)

lemma example_update_two_rates:
  "joint_update_rates s = [r, r'] \<Longrightarrow>
   update_joint_pose example_arm s [0, Suc 0, 2, 3, 4, 5] [- x, 0, 0, 0, 0, 0]
     example_jacobian (forward_kinematics example_arm [x]) [x] = EigenAssert"
  by (simp add: update_joint_pose_def rotate_bottomRows_def reduceJacobian_def
        calculateDampedPseudoInverse_def example_arm_def example_jacobian_def m3_identity_def
        m3_transpose_def m3_apply_def v3_plus_def v3_scale_def v3_list_def mat_times_def
        asDiagonal_def transpose_m_def mat_vec_def array_times_def vec_plus_def example_inv_Sv
        lessThan_Suc eval_nat_numeral Let_def)

lemma example_pass_update:
  assumes "dof_nullity s = [1, 1, 1, 1, 1, 1]"
    and "cartesian_convergence_thresholds s = [h, h, h, h, h, h]"
    and "joint_update_rates s = [r]"
    and "\<not> \<bar>x\<bar> < h"
  shows "loop_pass example_arm s \<lparr>translation = (0, 0, 0), rotation = m3_identity\<rparr> [x]
         = Updated [x - r * x]"
proof -
  have i: "constrained_indices (dof_nullity s) = [0, Suc 0, 2, 3, 4, 5]"
    using example_indices assms(1) by (simp add: example_goal_def)
  show ?thesis
    unfolding loop_pass_def i using assms
    by (simp add: example_twist example_update_rate example_jacobian twist_below_thresholds_def)
qed

lemma example_pass_converged:
  assumes "dof_nullity s = [1, 1, 1, 1, 1, 1]"
    and "cartesian_convergence_thresholds s = [h, h, h, h, h, h]"
    and "\<bar>x\<bar> < h"
  shows "loop_pass example_arm s \<lparr>translation = (0, 0, 0), rotation = m3_identity\<rparr> [x] = Converged"
proof -
  from assms(3) have "0 < h" by linarith
  with assms show ?thesis
    unfolding loop_pass_def by (simp add: example_twist twist_below_thresholds_def)
qed

lemma example_pass_two_rates:
  "loop_pass example_arm two_rates_goal \<lparr>translation = (0, 0, 0), rotation = m3_identity\<rparr> [1]
     = CheckFailed"
proof -
  have i: "constrained_indices (dof_nullity two_rates_goal) = [0, Suc 0, 2, 3, 4, 5]"
    using example_indices by (simp add: two_rates_goal_def)
  show ?thesis
    unfolding loop_pass_def i
    by (simp add: example_twist example_update_two_rates [where r = 1 and r' = 1] example_jacobian
          twist_below_thresholds_def two_rates_goal_def example_goal_def)
qed

lemma half_rate_after:
  "joint_pose_after example_arm half_rate_goal \<lparr>translation = (0, 0, 0), rotation = m3_identity\<rparr> [1] 2
     = Some [1/4]"
proof -
  have p1: "loop_pass example_arm half_rate_goal \<lparr>translation = (0, 0, 0), rotation = m3_identity\<rparr> [1]
      = Updated [1/2]"
    using example_pass_update [of half_rate_goal "1/100" "1/2" 1]
    by (simp add: half_rate_goal_def example_goal_def)
  have p2: "loop_pass example_arm half_rate_goal \<lparr>translation = (0, 0, 0), rotation = m3_identity\<rparr> [1/2]
      = Updated [1/4]"
    using example_pass_update [of half_rate_goal "1/100" "1/2" "1/2"]
    by (simp add: half_rate_goal_def example_goal_def)
  show ?thesis
    by (simp add: numeral_2_eq_2 p1 p2)
qed

theorem runIK_within_budget_witness:
  "well_dimensioned example_arm half_rate_goal (length [1 :: real]) \<and>
   unat (max_iterations half_rate_goal) = 2 \<and>
   joint_pose_after example_arm half_rate_goal (tool_goal_pose half_rate_goal) [1] 2 = Some [1/4] \<and>
   runIK example_arm half_rate_goal (tool_goal_pose half_rate_goal) [1] = Returns (False, [1/4], 2) \<and>
   (\<exists>converged joint_pose n.
      runIK example_arm half_rate_goal (tool_goal_pose half_rate_goal) [1]
        = Returns (converged, joint_pose, n) \<and> length joint_pose = 1)"
proof -
  have g: "tool_goal_pose half_rate_goal = \<lparr>translation = (0, 0, 0), rotation = m3_identity\<rparr>"
    by (simp add: half_rate_goal_def example_goal_def)
  have w: "well_dimensioned example_arm half_rate_goal (length [1 :: real])"
    using example_well_dimensioned [of half_rate_goal]
    by (simp add: half_rate_goal_def example_goal_def)
  have u: "unat (max_iterations half_rate_goal) = 2" by (simp add: half_rate_goal_def)
  have a: "joint_pose_after example_arm half_rate_goal (tool_goal_pose half_rate_goal) [1]
      (unat (max_iterations half_rate_goal)) = Some [1/4]"
    unfolding g u by (rule half_rate_after)
  note t = runIK_within_budget [of example_arm half_rate_goal "[1]" "tool_goal_pose half_rate_goal"
      False "[1/4]" 2 "[1/4]"]
  from t a have r: "runIK example_arm half_rate_goal (tool_goal_pose half_rate_goal) [1]
      = Returns (False, [1/4], unat (max_iterations half_rate_goal))"
    by blast
  from t w have "\<exists>converged joint_pose n.
      runIK example_arm half_rate_goal (tool_goal_pose half_rate_goal) [1]
        = Returns (converged, joint_pose, n) \<and> length joint_pose = length [1 :: real]"
    by blast
  with w u a r show ?thesis by simp
qed

text \<open>
  C5, as stated, fails. With the budget \<open>-1\<close>, which \<open>configure\<close> accepts, the loop
  makes one joint update, more than the configured number. With two update rates for a
  chain of one joint the first update fails Eigen's size check: the call does not come
  back with a boolean.
\<close>

theorem runIK_budget_counterexample:
  "sint (max_iterations negative_budget_goal) = - 1 \<and>
   joint_pose_after example_arm negative_budget_goal (tool_goal_pose negative_budget_goal) [1] 1
     = Some [0] \<and>
   runIK example_arm negative_budget_goal (tool_goal_pose negative_budget_goal) [1]
     = Returns (True, [0], 1) \<and>
   length (joint_update_rates two_rates_goal) = 2 \<and>
   runIK example_arm two_rates_goal (tool_goal_pose two_rates_goal) [1] = EigenAssert"
proof -
  have g: "tool_goal_pose negative_budget_goal = \<lparr>translation = (0, 0, 0), rotation = m3_identity\<rparr>"
    "tool_goal_pose two_rates_goal = \<lparr>translation = (0, 0, 0), rotation = m3_identity\<rparr>"
    by (simp_all add: negative_budget_goal_def two_rates_goal_def example_goal_def)
  have u: "unat (max_iterations negative_budget_goal) = 4294967295"
    by (simp add: negative_budget_goal_def unsigned_minus_1_eq_mask mask_eq_exp_minus_1)
  have p1: "loop_pass example_arm negative_budget_goal \<lparr>translation = (0, 0, 0), rotation = m3_identity\<rparr> [1]
      = Updated [0]"
    using example_pass_update [of negative_budget_goal "1/100" 1 1]
    by (simp add: negative_budget_goal_def example_goal_def)
  have p2: "loop_pass example_arm negative_budget_goal \<lparr>translation = (0, 0, 0), rotation = m3_identity\<rparr> [0]
      = Converged"
    using example_pass_converged [of negative_budget_goal "1/100" 0]
    by (simp add: negative_budget_goal_def example_goal_def)
  have a: "joint_pose_after example_arm negative_budget_goal
      \<lparr>translation = (0, 0, 0), rotation = m3_identity\<rparr> [1] 1 = Some [0]"
    by (simp add: p1)
  have r: "runIK example_arm negative_budget_goal \<lparr>translation = (0, 0, 0), rotation = m3_identity\<rparr> [1]
     = Returns (True, [0], 1)"
    unfolding runIK_def
    by (subst runIK_loop_pass, simp add: u p1, subst runIK_loop_pass, simp add: u p2)
  have e: "runIK example_arm two_rates_goal \<lparr>translation = (0, 0, 0), rotation = m3_identity\<rparr> [1]
      = EigenAssert"
  proof -
    have "0 < unat (max_iterations two_rates_goal)"
      by (simp add: two_rates_goal_def example_goal_def)
    then show ?thesis
      unfolding runIK_def by (subst runIK_loop_pass) (simp add: example_pass_two_rates)
  qed
  have s: "sint (max_iterations negative_budget_goal) = - 1"
    by (simp add: negative_budget_goal_def)
  have l: "length (joint_update_rates two_rates_goal) = 2" by (simp add: two_rates_goal_def)
  from s a r l e show ?thesis unfolding g by blast
qed

section \<open>A tool that is already at the goal\<close>

lemma twist_zero_below:
  assumes "length thresholds = n" and "\<forall>h \<in> set thresholds. 0 < h"
  shows "twist_below_thresholds (replicate n 0) thresholds = Returns True"
proof -
  have "\<bar>t\<bar> < h" if "(t, h) \<in> set (zip (replicate n 0) thresholds)" for t h :: real
  proof -
    from that have "t \<in> set (replicate n 0)" and "h \<in> set thresholds"
      by (auto dest: set_zip_leftD set_zip_rightD)
    with assms(2) show ?thesis by auto
  qed
  with assms(1) show ?thesis
    by (auto simp: twist_below_thresholds_def list_all_iff)
qed

lemma computeTwist_same_pose:
  assumes n: "3 \<le> length nullity"
    and orth: "m3_times (m3_transpose (rotation p)) (rotation p) = m3_identity"
    and zero: "fst (aa m3_identity) = 0"
  shows "computeTwist aa p p nullity = Returns (replicate (length nullity) 0)"
proof -
  have t: "v3_minus (translation p) (translation p) = (0, 0, 0)"
    by (cases "translation p") (auto simp: v3_minus_def)
  have r: "v3_scale (snd (aa m3_identity)) 0 = (0, 0, 0)"
    by (cases "snd (aa m3_identity)") (auto simp: v3_scale_def)
  have h: "set_head3 (replicate (length nullity) 0) (0, 0, 0) = replicate (length nullity) 0"
  proof -
    have "[0, 0, 0] @ replicate (length nullity - 3) (0::real)
        = replicate 3 0 @ replicate (length nullity - 3) 0"
      by (simp add: numeral_3_eq_3)
    also have "\<dots> = replicate (length nullity) 0"
      using n by (simp add: replicate_add [symmetric])
    finally show ?thesis by (simp add: set_head3_def v3_list_def)
  qed
  have tl: "set_tail3 (replicate (length nullity) 0) (0, 0, 0) = replicate (length nullity) (0::real)"
  proof -
    have "replicate (length nullity - 3) (0::real) @ [0, 0, 0] = replicate (length nullity - 3) 0 @ replicate 3 0"
      by (simp add: numeral_3_eq_3)
    also have "\<dots> = replicate (length nullity) 0"
      using n by (simp add: replicate_add [symmetric])
    finally show ?thesis using n by (simp add: set_tail3_def v3_list_def)
  qed
  have m: "map2 (\<lambda>n t. if n = 0 then 0 else t) nullity (replicate (length nullity) (0::real))
      = replicate (length nullity) 0"
    by (simp add: list_eq_iff_nth_eq)
  show ?thesis
    by (simp add: computeTwist_Returns [OF n] orth zero force_angle_range_zero t r h tl m)
qed

text \<open>
  C4, as amended. With a positive budget and thresholds that are all strictly positive,
  an initial joint vector whose tool pose is the goal pose (its rotation orthonormal, so
  that the relative rotation is the identity, for which Eigen reports the angle 0) gives
  the zero twist; \<open>runIK\<close> converges after 0 iterations with the joint vector unchanged,
  and \<open>filter\<close> reports \<open>filtered = true\<close> and leaves the last waypoint as it was.
\<close>

theorem runIK_at_goal:
  assumes budget: "0 < unat (max_iterations s)"
    and sizes: "3 \<le> length (dof_nullity s)"
      "length (cartesian_convergence_thresholds s) = length (dof_nullity s)"
    and positive: "\<forall>h \<in> set (cartesian_convergence_thresholds s). 0 < h"
    and at_goal: "forward_kinematics c init_joint_pose = tool_goal_pose s"
    and orth: "m3_times (m3_transpose (rotation (tool_goal_pose s))) (rotation (tool_goal_pose s))
        = m3_identity"
    and zero: "fst (toAngleAxis c m3_identity) = 0"
    and last: "rightCols1 parameters = Returns init_joint_pose"
  shows "computeTwist (toAngleAxis c) (forward_kinematics c init_joint_pose) (tool_goal_pose s)
           (dof_nullity s) = Returns (replicate (length (dof_nullity s)) 0) \<and>
         runIK c s (tool_goal_pose s) init_joint_pose = Returns (True, init_joint_pose, 0) \<and>
         (\<exists>parameters'. filter_parameters c s parameters = Returns (True, True, parameters') \<and>
             rightCols1 parameters' = Returns init_joint_pose \<and>
             (\<forall>i j. i < rows parameters \<longrightarrow> coeff parameters' i j = coeff parameters i j))"
proof -
  have tw: "computeTwist (toAngleAxis c) (forward_kinematics c init_joint_pose) (tool_goal_pose s)
           (dof_nullity s) = Returns (replicate (length (dof_nullity s)) 0)"
    unfolding at_goal
    using computeTwist_same_pose [of "dof_nullity s" "tool_goal_pose s" "toAngleAxis c"]
      sizes(1) orth zero by blast
  have below: "twist_below_thresholds (replicate (length (dof_nullity s)) 0)
      (cartesian_convergence_thresholds s) = Returns True"
    by (rule twist_zero_below [OF sizes(2) positive])
  have run: "runIK c s (tool_goal_pose s) init_joint_pose = Returns (True, init_joint_pose, 0)"
    unfolding runIK_def using budget tw below
    by (subst runIK_loop.simps) simp
  from last have dims: "0 < cols parameters" "length init_joint_pose = rows parameters"
    and col: "init_joint_pose = map (\<lambda>i. coeff parameters i (cols parameters - 1)) [0..<rows parameters]"
    by (auto simp: rightCols1_Returns)
  then obtain p' where p': "set_rightCols1 parameters init_joint_pose = Returns p'"
    using set_rightCols1_ok by blast
  have same: "coeff p' i j = coeff parameters i j" if "i < rows parameters" for i j
    using p' dims that col by (auto simp: set_rightCols1_def split: if_splits)
  from p' have "rightCols1 p' = Returns init_joint_pose" by (auto dest: rightCols1_set)
  moreover have "filter_parameters c s parameters = Returns (True, True, p')"
    by (simp add: filter_parameters_def last run p')
  ultimately show ?thesis using tw run same by blast
qed

theorem runIK_at_goal_witness:
  "0 < unat (max_iterations example_goal) \<and>
   cartesian_convergence_thresholds example_goal = [1/100, 1/100, 1/100, 1/100, 1/100, 1/100] \<and>
   forward_kinematics example_arm [0] = tool_goal_pose example_goal \<and>
   rightCols1 goal_parameters = Returns [0] \<and>
   computeTwist (toAngleAxis example_arm) (forward_kinematics example_arm [0])
     (tool_goal_pose example_goal) (dof_nullity example_goal) = Returns [0, 0, 0, 0, 0, 0] \<and>
   runIK example_arm example_goal (tool_goal_pose example_goal) [0] = Returns (True, [0], 0) \<and>
   (\<exists>parameters'. filter_parameters example_arm example_goal goal_parameters
        = Returns (True, True, parameters') \<and>
      rightCols1 parameters' = Returns [0] \<and> coeff parameters' 0 1 = 0 \<and> coeff parameters' 0 0 = 5)"
proof -
  have b: "0 < unat (max_iterations example_goal)" by (simp add: example_goal_def)
  have z: "3 \<le> length (dof_nullity example_goal)"
    "length (cartesian_convergence_thresholds example_goal) = length (dof_nullity example_goal)"
    by (simp_all add: example_goal_def)
  have th: "cartesian_convergence_thresholds example_goal = [1/100, 1/100, 1/100, 1/100, 1/100, 1/100]"
    by (simp add: example_goal_def)
  then have p: "\<forall>h \<in> set (cartesian_convergence_thresholds example_goal). 0 < h" by simp
  have g: "forward_kinematics example_arm [0] = tool_goal_pose example_goal"
    by (simp add: example_arm_def example_goal_def)
  have o: "m3_times (m3_transpose (rotation (tool_goal_pose example_goal)))
      (rotation (tool_goal_pose example_goal)) = m3_identity"
    by (simp add: example_goal_def m3_identity_def m3_times_def m3_transpose_def m3_apply_def
          v3_plus_def v3_scale_def)
  have a: "fst (toAngleAxis example_arm m3_identity) = 0" by (simp add: example_arm_def)
  have l: "rightCols1 goal_parameters = Returns [0]"
    by (simp add: rightCols1_def goal_parameters_def)
  note t = runIK_at_goal [OF b z p g o a l]
  from t have tw: "computeTwist (toAngleAxis example_arm) (forward_kinematics example_arm [0])
     (tool_goal_pose example_goal) (dof_nullity example_goal) = Returns [0, 0, 0, 0, 0, 0]"
    by (simp add: example_goal_def numeral_eq_Suc)
  from t obtain p' where f: "filter_parameters example_arm example_goal goal_parameters
        = Returns (True, True, p')" and r: "rightCols1 p' = Returns [0]"
      and c: "\<forall>i j. i < rows goal_parameters \<longrightarrow> coeff p' i j = coeff goal_parameters i j"
    by blast
  from c have "coeff p' 0 1 = 0" "coeff p' 0 0 = 5" by (simp_all add: goal_parameters_def)
  with f r have "\<exists>parameters'. filter_parameters example_arm example_goal goal_parameters
        = Returns (True, True, parameters') \<and>
      rightCols1 parameters' = Returns [0] \<and> coeff parameters' 0 1 = 0 \<and> coeff parameters' 0 0 = 5"
    by blast
  with t b th g l tw show ?thesis by blast
qed

lemma zero_run:
  "runIK example_arm zero_threshold_goal (tool_goal_pose zero_threshold_goal) [0] = Returns (False, [0], 1)"
proof -
  have g: "tool_goal_pose zero_threshold_goal = \<lparr>translation = (0, 0, 0), rotation = m3_identity\<rparr>"
    by (simp add: zero_threshold_goal_def example_goal_def)
  have i: "constrained_indices (dof_nullity zero_threshold_goal) = [0, Suc 0, 2, 3, 4, 5]"
    using example_indices by (simp add: zero_threshold_goal_def)
  show ?thesis
    unfolding runIK_def i g
    by (subst example_loop_step [where h = 0])
       (simp_all add: zero_threshold_goal_def example_goal_def example_loop_exhausted)
qed

text \<open>
  C4, as stated, fails: thresholds of 0 are not negative and the budget 1 is positive,
  the tool is at the goal and the twist is zero, yet the strict comparison of line 309
  is false, one joint update is made and \<open>filter\<close> reports \<open>filtered = false\<close>.
\<close>

theorem runIK_at_goal_counterexample:
  "cartesian_convergence_thresholds zero_threshold_goal = [0, 0, 0, 0, 0, 0] \<and>
   unat (max_iterations zero_threshold_goal) = 1 \<and>
   forward_kinematics example_arm [0] = tool_goal_pose zero_threshold_goal \<and>
   rightCols1 goal_parameters = Returns [0] \<and>
   computeTwist (toAngleAxis example_arm) (forward_kinematics example_arm [0])
     (tool_goal_pose zero_threshold_goal) (dof_nullity zero_threshold_goal)
     = Returns [0, 0, 0, 0, 0, 0] \<and>
   runIK example_arm zero_threshold_goal (tool_goal_pose zero_threshold_goal) [0]
     = Returns (False, [0], 1) \<and>
   filter_parameters example_arm zero_threshold_goal goal_parameters
     = Returns (False, False, goal_parameters)"
proof -
  have l: "rightCols1 goal_parameters = Returns [0]"
    by (simp add: rightCols1_def goal_parameters_def)
  have g: "tool_goal_pose zero_threshold_goal = \<lparr>translation = (0, 0, 0), rotation = m3_identity\<rparr>"
    by (simp add: zero_threshold_goal_def example_goal_def)
  have tw: "computeTwist (toAngleAxis example_arm) (forward_kinematics example_arm [0])
     (tool_goal_pose zero_threshold_goal) (dof_nullity zero_threshold_goal)
     = Returns [0, 0, 0, 0, 0, 0]"
    using example_twist [of 0] by (simp add: g zero_threshold_goal_def example_goal_def)
  have "filter_parameters example_arm zero_threshold_goal goal_parameters
     = Returns (False, False, goal_parameters)"
    by (simp add: filter_parameters_def l zero_run)
  with l tw zero_run show ?thesis
    by (simp add: zero_threshold_goal_def example_goal_def example_arm_def)
qed

end
